theory Spec2Isabelle
  imports Complex_Main
begin

section \<open>Data model\<close>

text \<open>
  The repository holds two copies of the rental subsystem: the controllers and models at
  the root (\<^verbatim>\<open>controllers/\<close>, \<^verbatim>\<open>models/\<close>) and the later ones under
  \<^verbatim>\<open>INTEGRADORA/\<close>. A definition named as in the source embeds the root copy; the
  suffix \<open>_integradora\<close> marks the embedding of the copy under \<^verbatim>\<open>INTEGRADORA/\<close>.

  An amount of money held in a \<open>DECIMAL(10,2)\<close> column, and what the code computes from
  such amounts and integers, is an integer counting centavos (\<open>dinero\<close>), so \<open>150.00\<close> is
  \<open>15000\<close>. The penalty rate comes from the caller as a Python float with any number of
  decimals: it, and the penalty computed from it, is a rational number of centavos
  (\<open>monto\<close>), the exact value of the float. The rounding error of binary floating-point
  arithmetic is not modelled. Instants (\<open>datetime\<close>) are integers counting
  microseconds, the resolution of \<open>datetime\<close>. Python's integers are \<open>int\<close>.
  The state strings of the source (\<open>'Activo'\<close>, \<open>'Activa'\<close>, \<open>'Vencida'\<close>,
  \<open>'Devuelto'\<close>) are kept as strings. Every column of a row holds a value, but
  \<open>Fecha_Devuelto\<close>, which may be null; \<open>Disponible\<close> is a signed integer.
\<close>

type_synonym dinero = int
type_synonym monto = rat
type_synonym instante = int

text \<open>One day, the unit of \<open>timedelta(days=1)\<close> and of \<open>timedelta.days\<close>.\<close>

definition un_dia :: int where
  "un_dia = 86400000000"

text \<open>
  A row of \<open>INVENTARIO\<close>, keyed by \<open>Codigo_Barras\<close>; the descriptive columns
  (description, size, colour, category) play no part in what follows and are left out.
\<close>

record disfraz =
  precio_venta :: dinero
  precio_renta :: dinero
  stock :: int
  disponible :: int
  estado :: string

text \<open>
  A row of \<open>RENTAS\<close> (class \<open>Renta\<close>); \<open>estado_renta\<close> is its \<open>estado\<close>. The
  identifier is \<open>None\<close> on an object that has not been inserted yet.
\<close>

record renta =
  id_renta :: "int option"
  id_cliente :: int
  id_usuario :: int
  fecha_renta :: instante
  fecha_devolucion :: instante
  fecha_devuelto :: "instante option"
  penalizacion :: dinero
  dias_renta :: int
  total :: dinero
  deposito :: dinero
  estado_renta :: string

text \<open>A row of \<open>DETALLE_RENTAS\<close> (class \<open>DetalleRenta\<close>).\<close>

record detalle_renta =
  det_id_renta :: "int option"
  det_codigo_barras :: string
  cantidad :: int
  precio_unitario :: dinero
  subtotal :: dinero

text \<open>
  The persistent store: the tables the rental subsystem reads and writes. \<open>CLIENTES\<close>
  and \<open>USUARIOS\<close> are reduced to their primary keys.
\<close>

record db =
  INVENTARIO :: "string \<rightharpoonup> disfraz"
  RENTAS :: "renta list"
  DETALLE_RENTAS :: "detalle_renta list"
  CONFIGURACION :: "string \<rightharpoonup> dinero"
  CLIENTES :: "int list"
  USUARIOS :: "int list"

text \<open>
  The world a controller runs in: the committed store and a script of faults. Each write
  statement sent to MySQL consumes the head of the script; \<open>True\<close> makes the statement
  raise \<open>mysql.connector.Error\<close>, and an empty script means that no statement fails.
  The connection is open and reads (\<open>ejecutar_query\<close>) are taken to succeed. One store
  stands for the database: every controller reads what the last commit has written.
\<close>

record mundo =
  bd :: db
  fallos :: "bool list"

text \<open>The messages of the source, one constructor for each text.\<close>

datatype mensaje =
    NoExisteDisfraz
  | DisfrazInactivo
  | StockInsuficiente
  | StockSuficiente
  | CantidadInvalida
  | SobreStock
  | StockActualizado
  | NoSePudoActualizar
  | ErrorInesperado
  | RentaSinProductos
  | DiasNoPositivos
  | MaximoDias
  | ProductoInvalido
  | DisfrazNoEncontrado
  | TotalNoPositivo
  | DepositoNegativo
  | FechaInvalida
  | ErrorAlRegistrar
  | RentaRegistrada
  | NoExisteRenta
  | YaDevuelta
  | EstadoNoDevolvible
  | SinDetalles
  | RentaDevuelta
  | MontoNegativo
  | NoSePudoConfigurar
  | PenalizacionActualizada
  | ClienteNoEncontrado
  | UsuarioNoEncontrado
  | PrecioNegativo

section \<open>ConexionDB\<close>

text \<open>
  \<open>ConexionDB.ejecutar_update\<close>: runs one statement and commits it by itself. On a
  MySQL error it rolls the statement back and returns \<open>None\<close>. A statement is a
  function from the store to the new store and the number of rows it changed
  (\<open>cursor.rowcount\<close>; MySQL counts the rows whose values changed).
\<close>

definition ejecutar_update :: "(db \<Rightarrow> db \<times> nat) \<Rightarrow> mundo \<Rightarrow> nat option \<times> mundo" where
  "ejecutar_update stmt w =
     (case fallos w of
        True # fs \<Rightarrow> (None, w\<lparr>fallos := fs\<rparr>)
      | _ \<Rightarrow> (let (d, n) = stmt (bd w) in (Some n, \<lparr>bd = d, fallos = tl (fallos w)\<rparr>)))"

text \<open>The test \<open>filas and filas > 0\<close> on the result of \<open>ejecutar_update\<close>.\<close>

definition filas_ok :: "nat option \<Rightarrow> bool" where
  "filas_ok r = (case r of None \<Rightarrow> False | Some n \<Rightarrow> 0 < n)"

text \<open>
  \<open>f"{x:.2f}"\<close>: the amount with two decimals, that is a whole number of centavos, the
  nearest one to the exact value, a tie going to the even one.
\<close>

definition formato_2f :: "monto \<Rightarrow> dinero" where
  "formato_2f x =
     (let n = \<lfloor>x\<rfloor>; r = x - of_int n
      in if r < 1 / 2 then n else if 1 / 2 < r then n + 1 else if even n then n else n + 1)"

text \<open>
  What MySQL stores in a \<open>DECIMAL(10,2)\<close> column for a number with more decimals: the
  nearest whole number of centavos, a tie going away from zero.
\<close>

definition decimal_10_2 :: "monto \<Rightarrow> dinero" where
  "decimal_10_2 x = (if 0 \<le> x then \<lfloor>x + 1 / 2\<rfloor> else \<lceil>x - 1 / 2\<rceil>)"

text \<open>
  \<open>UPDATE INVENTARIO SET Disponible = Disponible + delta WHERE Codigo_Barras = c\<close>
  (the root copy; its decrement is the same statement with \<open>- delta\<close>).
\<close>

definition sql_sumar_disponible :: "int \<Rightarrow> string \<Rightarrow> db \<Rightarrow> db \<times> nat" where
  "sql_sumar_disponible delta c d =
     (case INVENTARIO d c of
        None \<Rightarrow> (d, 0)
      | Some x \<Rightarrow>
          if delta = 0 then (d, 0)
          else (d\<lparr>INVENTARIO := (INVENTARIO d)(c \<mapsto> x\<lparr>disponible := disponible x + delta\<rparr>)\<rparr>, 1))"

text \<open>\<open>UPDATE INVENTARIO SET Disponible = v WHERE Codigo_Barras = c\<close> (the later copy).\<close>

definition sql_fijar_disponible :: "int \<Rightarrow> string \<Rightarrow> db \<Rightarrow> db \<times> nat" where
  "sql_fijar_disponible v c d =
     (case INVENTARIO d c of
        None \<Rightarrow> (d, 0)
      | Some x \<Rightarrow>
          if disponible x = v then (d, 0)
          else (d\<lparr>INVENTARIO := (INVENTARIO d)(c \<mapsto> x\<lparr>disponible := v\<rparr>)\<rparr>, 1))"

section \<open>InventarioController, root copy\<close>

definition esta_activo :: "disfraz \<Rightarrow> bool" where
  "esta_activo x = (estado x = ''Activo'')"

definition buscar_por_codigo :: "mundo \<Rightarrow> string \<Rightarrow> disfraz option" where
  "buscar_por_codigo w c = INVENTARIO (bd w) c"

definition verificar_disponibilidad :: "mundo \<Rightarrow> string \<Rightarrow> int \<Rightarrow> bool \<times> mensaje \<times> int" where
  "verificar_disponibilidad w c cant =
     (case buscar_por_codigo w c of
        None \<Rightarrow> (False, NoExisteDisfraz, 0)
      | Some x \<Rightarrow>
          if \<not> esta_activo x then (False, DisfrazInactivo, 0)
          else if disponible x < cant then (False, StockInsuficiente, disponible x)
          else (True, StockSuficiente, disponible x))"

definition descontar_stock :: "string \<Rightarrow> int \<Rightarrow> mundo \<Rightarrow> (bool \<times> mensaje) \<times> mundo" where
  "descontar_stock c cant w =
     (case verificar_disponibilidad w c cant of
        (hay_stock, msg, _) \<Rightarrow>
          if \<not> hay_stock then ((False, msg), w)
          else (case ejecutar_update (sql_sumar_disponible (- cant) c) w of
                  (filas, w') \<Rightarrow>
                    if filas_ok filas then ((True, StockActualizado), w')
                    else ((False, NoSePudoActualizar), w')))"

definition aumentar_stock :: "string \<Rightarrow> int \<Rightarrow> mundo \<Rightarrow> (bool \<times> mensaje) \<times> mundo" where
  "aumentar_stock c cant w =
     (case buscar_por_codigo w c of
        None \<Rightarrow> ((False, NoExisteDisfraz), w)
      | Some x \<Rightarrow>
          (case ejecutar_update (sql_sumar_disponible cant c) w of
             (filas, w') \<Rightarrow>
               if filas_ok filas then ((True, StockActualizado), w')
               else ((False, NoSePudoActualizar), w')))"

section \<open>InventarioController, copy under INTEGRADORA\<close>

text \<open>
  \<open>Disfraz.from_db_row\<close> of the later copy reads an empty \<open>Estado\<close> as \<open>'Activo'\<close> and
  builds the object through a constructor that raises \<open>ValueError\<close> on a negative price,
  stock or availability; \<open>buscar_por_codigo\<close> catches the exception and returns \<open>None\<close>.
\<close>

definition disfraz_construible :: "disfraz \<Rightarrow> bool" where
  "disfraz_construible x =
     (0 \<le> precio_venta x \<and> 0 \<le> precio_renta x \<and> 0 \<le> stock x \<and> 0 \<le> disponible x)"

definition disfraz_from_db_row_integradora :: "disfraz \<Rightarrow> disfraz option" where
  "disfraz_from_db_row_integradora x =
     (if disfraz_construible x
      then Some (x\<lparr>estado := (if estado x = [] then ''Activo'' else estado x)\<rparr>)
      else None)"

definition buscar_por_codigo_integradora :: "mundo \<Rightarrow> string \<Rightarrow> disfraz option" where
  "buscar_por_codigo_integradora w c =
     (case INVENTARIO (bd w) c of
        None \<Rightarrow> None
      | Some x \<Rightarrow> disfraz_from_db_row_integradora x)"

definition verificar_disponibilidad_integradora ::
  "mundo \<Rightarrow> string \<Rightarrow> int \<Rightarrow> bool \<times> mensaje \<times> int" where
  "verificar_disponibilidad_integradora w c cant =
     (case buscar_por_codigo_integradora w c of
        None \<Rightarrow> (False, NoExisteDisfraz, 0)
      | Some x \<Rightarrow>
          if \<not> esta_activo x then (False, DisfrazInactivo, 0)
          else if cant \<le> 0 then (False, CantidadInvalida, disponible x)
          else if disponible x < cant then (False, StockInsuficiente, disponible x)
          else (True, StockSuficiente, disponible x))"

definition descontar_stock_integradora ::
  "string \<Rightarrow> int \<Rightarrow> mundo \<Rightarrow> (bool \<times> mensaje) \<times> mundo" where
  "descontar_stock_integradora c cant w =
     (case buscar_por_codigo_integradora w c of
        None \<Rightarrow> ((False, NoExisteDisfraz), w)
      | Some x \<Rightarrow>
          if \<not> esta_activo x then ((False, DisfrazInactivo), w)
          else if cant \<le> 0 then ((False, CantidadInvalida), w)
          else if disponible x < cant then ((False, StockInsuficiente), w)
          else (case ejecutar_update (sql_fijar_disponible (disponible x - cant) c) w of
                  (filas, w') \<Rightarrow>
                    if filas_ok filas then ((True, StockActualizado), w')
                    else ((False, NoSePudoActualizar), w')))"

definition aumentar_stock_integradora ::
  "string \<Rightarrow> int \<Rightarrow> mundo \<Rightarrow> (bool \<times> mensaje) \<times> mundo" where
  "aumentar_stock_integradora c cant w =
     (case buscar_por_codigo_integradora w c of
        None \<Rightarrow> ((False, NoExisteDisfraz), w)
      | Some x \<Rightarrow>
          if cant \<le> 0 then ((False, CantidadInvalida), w)
          else if stock x < disponible x + cant then ((False, SobreStock), w)
          else (case ejecutar_update (sql_fijar_disponible (disponible x + cant) c) w of
                  (filas, w') \<Rightarrow>
                    if filas_ok filas then ((True, StockActualizado), w')
                    else ((False, NoSePudoActualizar), w')))"

section \<open>Models of the root copy: DetalleRenta and Renta\<close>

definition calcular_subtotal :: "detalle_renta \<Rightarrow> int \<Rightarrow> detalle_renta" where
  "calcular_subtotal det dias = det\<lparr>subtotal := cantidad det * precio_unitario det * dias\<rparr>"

definition esta_activa :: "renta \<Rightarrow> bool" where
  "esta_activa r = (estado_renta r = ''Activa'')"

definition esta_devuelta :: "renta \<Rightarrow> bool" where
  "esta_devuelta r = (estado_renta r = ''Devuelto'')"

definition esta_vencida :: "renta \<Rightarrow> bool" where
  "esta_vencida r = (estado_renta r = ''Vencida'')"

text \<open>
  \<open>Renta.dias_de_retraso\<close>; the first argument is the value of \<open>datetime.now()\<close>.
  \<open>delta.days\<close> of a positive \<open>timedelta\<close> is its number of whole days.
\<close>

definition dias_de_retraso :: "instante \<Rightarrow> renta \<Rightarrow> int" where
  "dias_de_retraso ahora r =
     (if \<not> esta_activa r \<and> \<not> esta_vencida r then 0
      else (let fecha_comparacion = (case fecha_devuelto r of Some t \<Rightarrow> t | None \<Rightarrow> ahora)
            in if fecha_devolucion r < fecha_comparacion
               then (fecha_comparacion - fecha_devolucion r) div un_dia
               else 0))"

text \<open>
  \<open>Renta.calcular_penalizacion\<close> calls \<open>dias_de_retraso\<close> itself, which reads the clock:
  the first argument is the value of that reading.
\<close>

definition calcular_penalizacion :: "instante \<Rightarrow> renta \<Rightarrow> monto \<Rightarrow> monto" where
  "calcular_penalizacion ahora r penalizacion_por_dia =
     (let dias_retraso = dias_de_retraso ahora r
      in if 0 < dias_retraso then of_int dias_retraso * penalizacion_por_dia else 0)"

definition deposito_a_devolver :: "renta \<Rightarrow> dinero" where
  "deposito_a_devolver r = deposito r"

text \<open>\<open>Renta.validar_renta\<close>; the second argument is \<open>self.detalles\<close>.\<close>

definition validar_renta :: "renta \<Rightarrow> detalle_renta list \<Rightarrow> bool \<times> mensaje" where
  "validar_renta r detalles =
     (if detalles = [] then (False, RentaSinProductos)
      else if dias_renta r \<le> 0 then (False, DiasNoPositivos)
      else if total r \<le> 0 then (False, TotalNoPositivo)
      else if deposito r < 0 then (False, DepositoNegativo)
      else if fecha_devolucion r \<le> fecha_renta r then (False, FechaInvalida)
      else (True, RentaRegistrada))"

section \<open>RentaController, root copy\<close>

text \<open>
  The controller object: its one attribute beside the connection, a float. The
  configuration holds the rate as a text with two decimals, which \<open>float\<close> reads back.
\<close>

record renta_controller =
  penalizacion_dia :: monto

definition cargar_penalizacion_dia :: "mundo \<Rightarrow> monto" where
  "cargar_penalizacion_dia w =
     (case CONFIGURACION (bd w) ''PENALIZACION_DIA'' of
        Some v \<Rightarrow> of_int v
      | None \<Rightarrow> 5000)"

text \<open>\<open>RentaController.__init__\<close>.\<close>

definition nuevo_controller :: "mundo \<Rightarrow> renta_controller" where
  "nuevo_controller w = \<lparr>penalizacion_dia = cargar_penalizacion_dia w\<rparr>"

text \<open>
  The loop of \<open>registrar_renta\<close> that validates the lines and accumulates
  \<open>detalles_validados\<close>, \<open>subtotal\<close> and \<open>deposito_total\<close>. A line is the pair of its
  \<open>codigo_barras\<close> and \<open>cantidad\<close>. \<open>Inl\<close> is the early \<open>return False, msg, None\<close>.
\<close>

fun preparar_detalles ::
  "mundo \<Rightarrow> int \<Rightarrow> (string \<times> int) list \<Rightarrow> detalle_renta list \<times> dinero \<times> dinero
     \<Rightarrow> mensaje + detalle_renta list \<times> dinero \<times> dinero" where
  "preparar_detalles w dias [] acc = Inr acc"
| "preparar_detalles w dias ((codigo, cant) # items) (validados, sub, dep) =
     (if codigo = [] \<or> cant \<le> 0 then Inl ProductoInvalido
      else (case verificar_disponibilidad w codigo cant of
              (hay_stock, msg_stock, _) \<Rightarrow>
                if \<not> hay_stock then Inl msg_stock
                else (case buscar_por_codigo w codigo of
                        None \<Rightarrow> Inl DisfrazNoEncontrado
                      | Some x \<Rightarrow>
                          if \<not> esta_activo x then Inl DisfrazInactivo
                          else (let detalle = calcular_subtotal
                                      \<lparr>det_id_renta = None, det_codigo_barras = codigo,
                                       cantidad = cant, precio_unitario = precio_renta x,
                                       subtotal = 0\<rparr> dias
                                in preparar_detalles w dias items
                                     (validados @ [detalle], sub + subtotal detalle,
                                      dep + precio_venta x * cant)))))"

text \<open>\<open>cursor.lastrowid\<close> after an insert into \<open>RENTAS\<close>: a fresh positive identifier.\<close>

definition nuevo_id :: "renta list \<Rightarrow> int" where
  "nuevo_id rs = 1 + foldr (\<lambda>r m. max (case id_renta r of Some i \<Rightarrow> i | None \<Rightarrow> 0) m) rs 0"

text \<open>
  \<open>INSERT INTO RENTAS (...) VALUES (..., 'Activa')\<close>: the columns the statement does
  not name take their defaults (\<open>Fecha_Devuelto\<close> null, \<open>Penalizacion\<close> 0).
\<close>

definition sql_insert_renta ::
  "int \<Rightarrow> int \<Rightarrow> instante \<Rightarrow> instante \<Rightarrow> int \<Rightarrow> dinero \<Rightarrow> dinero \<Rightarrow> db \<Rightarrow> db \<times> nat" where
  "sql_insert_renta idc idu f_renta f_devolucion dias tot dep d =
     (d\<lparr>RENTAS := RENTAS d @
          [\<lparr>id_renta = Some (nuevo_id (RENTAS d)), id_cliente = idc, id_usuario = idu,
            fecha_renta = f_renta, fecha_devolucion = f_devolucion, fecha_devuelto = None,
            penalizacion = 0, dias_renta = dias, total = tot, deposito = dep,
            estado_renta = ''Activa''\<rparr>]\<rparr>, 1)"

definition sql_insert_detalle :: "int \<Rightarrow> detalle_renta \<Rightarrow> db \<Rightarrow> db \<times> nat" where
  "sql_insert_detalle idr det d =
     (d\<lparr>DETALLE_RENTAS := DETALLE_RENTAS d @ [det\<lparr>det_id_renta := Some idr\<rparr>]\<rparr>, 1)"

text \<open>
  \<open>cursor.execute\<close> inside the transaction of \<open>registrar_renta\<close>: the statement acts on
  the pending state of the connection and nothing is committed. \<open>Inl\<close> is the exception,
  carrying what is left of the fault script.
\<close>

definition cursor_execute :: "(db \<Rightarrow> db \<times> nat) \<Rightarrow> mundo \<Rightarrow> bool list + mundo" where
  "cursor_execute stmt tx =
     (case fallos tx of
        True # fs \<Rightarrow> Inl fs
      | _ \<Rightarrow> Inr \<lparr>bd = fst (stmt (bd tx)), fallos = tl (fallos tx)\<rparr>)"

text \<open>The loop that inserts each line and decrements \<open>Disponible\<close>.\<close>

fun insertar_detalles :: "int \<Rightarrow> detalle_renta list \<Rightarrow> mundo \<Rightarrow> bool list + mundo" where
  "insertar_detalles idr [] tx = Inr tx"
| "insertar_detalles idr (det # dets) tx =
     (case cursor_execute (sql_insert_detalle idr det) tx of
        Inl fs \<Rightarrow> Inl fs
      | Inr tx1 \<Rightarrow>
          (case cursor_execute
                  (sql_sumar_disponible (- cantidad det) (det_codigo_barras det)) tx1 of
             Inl fs \<Rightarrow> Inl fs
           | Inr tx2 \<Rightarrow> insertar_detalles idr dets tx2))"

text \<open>\<open>connection.commit()\<close>: the pending state becomes the committed one, unless it raises.\<close>

definition commit :: "mundo \<Rightarrow> bool list + mundo" where
  "commit tx =
     (case fallos tx of
        True # fs \<Rightarrow> Inl fs
      | _ \<Rightarrow> Inr \<lparr>bd = bd tx, fallos = tl (fallos tx)\<rparr>)"

text \<open>
  The handler \<open>except Exception\<close> of \<open>registrar_renta\<close>: \<open>connection.rollback()\<close> discards
  the pending state, so the committed store of before the call stands.
\<close>

definition rollback :: "mundo \<Rightarrow> bool list \<Rightarrow> (bool \<times> mensaje \<times> int option) \<times> mundo" where
  "rollback w fs = ((False, ErrorInesperado, None), \<lparr>bd = bd w, fallos = fs\<rparr>)"

text \<open>
  \<open>RentaController.registrar_renta\<close>; the first argument is the value of
  \<open>datetime.now()\<close>, read once.
\<close>

definition registrar_renta ::
  "instante \<Rightarrow> int \<Rightarrow> int \<Rightarrow> (string \<times> int) list \<Rightarrow> int \<Rightarrow> mundo
     \<Rightarrow> (bool \<times> mensaje \<times> int option) \<times> mundo" where
  "registrar_renta ahora idc idu detalles dias w =
     (if detalles = [] then ((False, RentaSinProductos, None), w)
      else if dias \<le> 0 then ((False, DiasNoPositivos, None), w)
      else if 30 < dias then ((False, MaximoDias, None), w)
      else (case preparar_detalles w dias detalles ([], 0, 0) of
              Inl msg \<Rightarrow> ((False, msg, None), w)
            | Inr (detalles_validados, sub, deposito_total) \<Rightarrow>
                (let f_renta = ahora;
                     f_devolucion = f_renta + dias * un_dia;
                     r = \<lparr>id_renta = None, id_cliente = idc, id_usuario = idu,
                          fecha_renta = ahora, fecha_devolucion = f_devolucion,
                          fecha_devuelto = None, penalizacion = 0, dias_renta = dias,
                          total = sub, deposito = deposito_total, estado_renta = ''Activa''\<rparr>
                 in (case validar_renta r detalles_validados of
                       (valida, msg_val) \<Rightarrow>
                         if \<not> valida then ((False, msg_val, None), w)
                         else (case cursor_execute
                                      (sql_insert_renta idc idu f_renta f_devolucion dias sub
                                         deposito_total) w of
                                 Inl fs \<Rightarrow> rollback w fs
                               | Inr tx \<Rightarrow>
                                   (let idr = nuevo_id (RENTAS (bd w))
                                    in if idr = 0
                                       then ((False, ErrorAlRegistrar, None),
                                             \<lparr>bd = bd w, fallos = fallos tx\<rparr>)
                                       else (case insertar_detalles idr detalles_validados tx of
                                               Inl fs \<Rightarrow> rollback w fs
                                             | Inr tx' \<Rightarrow>
                                                 (case commit tx' of
                                                    Inl fs \<Rightarrow> rollback w fs
                                                  | Inr w' \<Rightarrow>
                                                      ((True, RentaRegistrada, Some idr),
                                                       w')))))))))"

definition buscar_por_id :: "mundo \<Rightarrow> int \<Rightarrow> renta option" where
  "buscar_por_id w idr = find (\<lambda>r. id_renta r = Some idr) (RENTAS (bd w))"

text \<open>\<open>SELECT Codigo_Barras, Cantidad FROM DETALLE_RENTAS WHERE Id_Renta = idr\<close>.\<close>

definition detalles_de :: "mundo \<Rightarrow> int \<Rightarrow> (string \<times> int) list" where
  "detalles_de w idr =
     map (\<lambda>det. (det_codigo_barras det, cantidad det))
       (filter (\<lambda>det. det_id_renta det = Some idr) (DETALLE_RENTAS (bd w)))"

text \<open>
  \<open>UPDATE RENTAS SET Estado = 'Devuelto', Fecha_Devuelto = NOW(), Penalizacion = p
  WHERE Id_Renta = idr\<close>; the penalty, a float, is stored in a \<open>DECIMAL(10,2)\<close> column.
\<close>

definition marcar_devuelto :: "instante \<Rightarrow> monto \<Rightarrow> renta \<Rightarrow> renta" where
  "marcar_devuelto ahora p r =
     r\<lparr>estado_renta := ''Devuelto'', fecha_devuelto := Some ahora,
       penalizacion := decimal_10_2 p\<rparr>"

definition sql_devolver_renta :: "instante \<Rightarrow> monto \<Rightarrow> int \<Rightarrow> db \<Rightarrow> db \<times> nat" where
  "sql_devolver_renta ahora p idr d =
     (d\<lparr>RENTAS := map (\<lambda>r. if id_renta r = Some idr then marcar_devuelto ahora p r else r)
                    (RENTAS d)\<rparr>,
      length (filter (\<lambda>r. id_renta r = Some idr \<and> marcar_devuelto ahora p r \<noteq> r) (RENTAS d)))"

text \<open>
  The loop of \<open>devolver_renta\<close> that gives the stock back: one \<open>ejecutar_update\<close> for
  each line, each committed by itself, its result not looked at.
\<close>

fun devolver_stock :: "(string \<times> int) list \<Rightarrow> mundo \<Rightarrow> mundo" where
  "devolver_stock [] w = w"
| "devolver_stock ((codigo, cant) # detalles) w =
     devolver_stock detalles (snd (ejecutar_update (sql_sumar_disponible cant codigo) w))"

record info_financiera =
  total_renta :: dinero
  info_deposito :: dinero
  dias_retraso :: int
  info_penalizacion :: monto
  deposito_devuelto :: dinero
  cobrar_adicional :: monto

text \<open>
  \<open>RentaController.devolver_renta\<close>. The call reads the clock three times:
  \<open>renta.dias_de_retraso()\<close> reads \<open>datetime.now()\<close> (\<open>ahora_dias\<close>), then
  \<open>renta.calcular_penalizacion\<close> calls \<open>dias_de_retraso\<close> again, which reads it anew
  (\<open>ahora_pen\<close>), and MySQL reads its own for \<open>NOW()\<close> (\<open>ahora_bd\<close>).
\<close>

definition devolver_renta ::
  "renta_controller \<Rightarrow> instante \<Rightarrow> instante \<Rightarrow> instante \<Rightarrow> int \<Rightarrow> int \<Rightarrow> mundo
     \<Rightarrow> (bool \<times> mensaje \<times> info_financiera option) \<times> mundo" where
  "devolver_renta self ahora_dias ahora_pen ahora_bd idr idu w =
     (case buscar_por_id w idr of
        None \<Rightarrow> ((False, NoExisteRenta, None), w)
      | Some r \<Rightarrow>
          if esta_devuelta r then ((False, YaDevuelta, None), w)
          else if \<not> esta_activa r \<and> \<not> esta_vencida r then ((False, EstadoNoDevolvible, None), w)
          else (let dias = dias_de_retraso ahora_dias r;
                    pen = calcular_penalizacion ahora_pen r (penalizacion_dia self);
                    detalles = detalles_de w idr
                in if detalles = [] then ((False, SinDetalles, None), w)
                   else (let w1 = devolver_stock detalles w;
                             w2 = snd (ejecutar_update (sql_devolver_renta ahora_bd pen idr) w1)
                         in ((True, RentaDevuelta,
                              Some \<lparr>total_renta = total r, info_deposito = deposito r,
                                    dias_retraso = dias, info_penalizacion = pen,
                                    deposito_devuelto = deposito_a_devolver r,
                                    cobrar_adicional = max 0 pen\<rparr>), w2))))"

text \<open>
  \<open>UPDATE RENTAS SET Estado = 'Vencida' WHERE Estado = 'Activa' AND Fecha_Devolucion < NOW()\<close>.
\<close>

definition por_vencer :: "instante \<Rightarrow> renta \<Rightarrow> bool" where
  "por_vencer ahora r = (estado_renta r = ''Activa'' \<and> fecha_devolucion r < ahora)"

definition sql_marcar_vencidas :: "instante \<Rightarrow> db \<Rightarrow> db \<times> nat" where
  "sql_marcar_vencidas ahora d =
     (d\<lparr>RENTAS := map (\<lambda>r. if por_vencer ahora r then r\<lparr>estado_renta := ''Vencida''\<rparr> else r)
                    (RENTAS d)\<rparr>,
      length (filter (por_vencer ahora) (RENTAS d)))"

definition marcar_rentas_vencidas :: "instante \<Rightarrow> mundo \<Rightarrow> nat \<times> mundo" where
  "marcar_rentas_vencidas ahora w =
     (case ejecutar_update (sql_marcar_vencidas ahora) w of
        (filas, w') \<Rightarrow> (if filas_ok filas then (case filas of Some n \<Rightarrow> n | None \<Rightarrow> 0) else 0, w'))"

text \<open>\<open>UPDATE CONFIGURACION SET Valor_Config = v WHERE Nombre_Config = k\<close>.\<close>

definition sql_update_config :: "string \<Rightarrow> dinero \<Rightarrow> db \<Rightarrow> db \<times> nat" where
  "sql_update_config k v d =
     (case CONFIGURACION d k of
        None \<Rightarrow> (d, 0)
      | Some old \<Rightarrow>
          if old = v then (d, 0)
          else (d\<lparr>CONFIGURACION := (CONFIGURACION d)(k \<mapsto> v)\<rparr>, 1))"

text \<open>
  \<open>RentaController.actualizar_penalizacion_dia\<close>: the store receives
  \<open>f"{nuevo_monto:.2f}"\<close>, the attribute the amount as the caller gave it.
\<close>

definition actualizar_penalizacion_dia ::
  "renta_controller \<Rightarrow> monto \<Rightarrow> mundo \<Rightarrow> (bool \<times> mensaje) \<times> renta_controller \<times> mundo" where
  "actualizar_penalizacion_dia self nuevo_monto w =
     (if nuevo_monto < 0 then ((False, MontoNegativo), self, w)
      else (case ejecutar_update
                   (sql_update_config ''PENALIZACION_DIA'' (formato_2f nuevo_monto)) w of
              (filas, w') \<Rightarrow>
                if filas_ok filas
                then ((True, PenalizacionActualizada), self\<lparr>penalizacion_dia := nuevo_monto\<rparr>, w')
                else ((False, NoSePudoConfigurar), self, w')))"

section \<open>RentaController, copy under INTEGRADORA\<close>

text \<open>
  \<open>ConexionDB.ejecutar_insert\<close>: runs one \<open>INSERT\<close>, commits it by itself and returns
  \<open>cursor.lastrowid\<close>; on a MySQL error it rolls back and returns \<open>None\<close>.
\<close>

definition ejecutar_insert :: "(db \<Rightarrow> db \<times> int) \<Rightarrow> mundo \<Rightarrow> int option \<times> mundo" where
  "ejecutar_insert stmt w =
     (case fallos w of
        True # fs \<Rightarrow> (None, w\<lparr>fallos := fs\<rparr>)
      | _ \<Rightarrow> (let (d, i) = stmt (bd w) in (Some i, \<lparr>bd = d, fallos = tl (fallos w)\<rparr>)))"

definition sql_insert_renta_integradora ::
  "int \<Rightarrow> int \<Rightarrow> instante \<Rightarrow> instante \<Rightarrow> int \<Rightarrow> dinero \<Rightarrow> dinero \<Rightarrow> db \<Rightarrow> db \<times> int" where
  "sql_insert_renta_integradora idc idu f_renta f_devolucion dias tot dep d =
     (fst (sql_insert_renta idc idu f_renta f_devolucion dias tot dep d), nuevo_id (RENTAS d))"

definition sql_insert_detalle_integradora :: "int \<Rightarrow> detalle_renta \<Rightarrow> db \<Rightarrow> db \<times> int" where
  "sql_insert_detalle_integradora idr det d =
     (fst (sql_insert_detalle idr det d), int (length (DETALLE_RENTAS d)) + 1)"

text \<open>\<open>_validar_datos_renta_basicos\<close>: customer, user, lines and days.\<close>

definition validar_datos_renta_basicos ::
  "mundo \<Rightarrow> int \<Rightarrow> int \<Rightarrow> (string \<times> int) list \<Rightarrow> int \<Rightarrow> bool \<times> mensaje" where
  "validar_datos_renta_basicos w idc idu detalles dias =
     (if idc \<notin> set (CLIENTES (bd w)) then (False, ClienteNoEncontrado)
      else if idu \<notin> set (USUARIOS (bd w)) then (False, UsuarioNoEncontrado)
      else if detalles = [] then (False, RentaSinProductos)
      else if dias \<le> 0 then (False, DiasNoPositivos)
      else (True, RentaRegistrada))"

text \<open>The first loop of \<open>registrar_renta\<close>: availability of each line, total and deposit.\<close>

fun verificar_detalles_integradora ::
  "mundo \<Rightarrow> int \<Rightarrow> (string \<times> int) list \<Rightarrow> dinero \<times> dinero \<Rightarrow> mensaje + dinero \<times> dinero" where
  "verificar_detalles_integradora w dias [] acc = Inr acc"
| "verificar_detalles_integradora w dias ((codigo, cant) # items) (tot, dep) =
     (case verificar_disponibilidad_integradora w codigo cant of
        (hay, msg_disp, _) \<Rightarrow>
          if \<not> hay then Inl msg_disp
          else (case buscar_por_codigo_integradora w codigo of
                  None \<Rightarrow> Inl DisfrazNoEncontrado
                | Some x \<Rightarrow>
                    if precio_renta x < 0 then Inl PrecioNegativo
                    else if precio_venta x < 0 then Inl PrecioNegativo
                    else verificar_detalles_integradora w dias items
                           (tot + cant * precio_renta x * dias, dep + precio_venta x * cant)))"

text \<open>
  The second loop: each line is inserted and committed, then \<open>descontar_stock\<close> is called
  and its failure is only logged. \<open>Inl\<close> is the \<open>AttributeError\<close> of
  \<open>disfraz.precio_renta\<close> on \<open>None\<close>, with the world as committed so far.
\<close>

fun registrar_detalles_integradora ::
  "int \<Rightarrow> int \<Rightarrow> (string \<times> int) list \<Rightarrow> mundo \<Rightarrow> mundo + mundo" where
  "registrar_detalles_integradora idr dias [] w = Inr w"
| "registrar_detalles_integradora idr dias ((codigo, cant) # items) w =
     (case buscar_por_codigo_integradora w codigo of
        None \<Rightarrow> Inl w
      | Some x \<Rightarrow>
          (let w1 = snd (ejecutar_insert
                      (sql_insert_detalle_integradora idr
                         \<lparr>det_id_renta = Some idr, det_codigo_barras = codigo, cantidad = cant,
                          precio_unitario = precio_renta x,
                          subtotal = cant * precio_renta x * dias\<rparr>) w);
               w2 = snd (descontar_stock_integradora codigo cant w1)
           in registrar_detalles_integradora idr dias items w2))"

definition registrar_renta_integradora ::
  "instante \<Rightarrow> int \<Rightarrow> int \<Rightarrow> (string \<times> int) list \<Rightarrow> int \<Rightarrow> mundo
     \<Rightarrow> (bool \<times> mensaje \<times> int option) \<times> mundo" where
  "registrar_renta_integradora ahora idc idu detalles dias w =
     (case validar_datos_renta_basicos w idc idu detalles dias of
        (ok, msg) \<Rightarrow>
          if \<not> ok then ((False, msg, None), w)
          else (case verificar_detalles_integradora w dias detalles (0, 0) of
                  Inl msg_disp \<Rightarrow> ((False, msg_disp, None), w)
                | Inr (tot, dep) \<Rightarrow>
                    (case ejecutar_insert
                            (sql_insert_renta_integradora idc idu ahora (ahora + dias * un_dia)
                               dias tot dep) w of
                       (None, w1) \<Rightarrow> ((False, ErrorAlRegistrar, None), w1)
                     | (Some nid, w1) \<Rightarrow>
                         if nid = 0 then ((False, ErrorAlRegistrar, None), w1)
                         else (case registrar_detalles_integradora nid dias detalles w1 of
                                 Inl w2 \<Rightarrow> ((False, ErrorInesperado, None), w2)
                               | Inr w2 \<Rightarrow> ((True, RentaRegistrada, Some nid), w2)))))"

text \<open>
  \<open>Renta.from_db_row\<close> of the later copy reads an empty \<open>Estado\<close> as \<open>'Activa'\<close>, and
  the constructor of \<open>Renta\<close> raises \<open>ValueError\<close> on a row that fails one of these tests;
  \<open>devolver_renta\<close> then answers through \<open>except Exception\<close>.
\<close>

definition renta_construible :: "renta \<Rightarrow> bool" where
  "renta_construible r =
     (0 < id_cliente r \<and> 0 < id_usuario r \<and> 0 < dias_renta r \<and> 0 \<le> total r \<and>
      0 \<le> deposito r \<and> 0 \<le> penalizacion r \<and> fecha_renta r < fecha_devolucion r)"

definition renta_from_db_row_integradora :: "renta \<Rightarrow> renta option" where
  "renta_from_db_row_integradora r =
     (if renta_construible r
      then Some (r\<lparr>estado_renta := (if estado_renta r = [] then ''Activa'' else estado_renta r)\<rparr>)
      else None)"

text \<open>The loop over the lines: \<open>aumentar_stock\<close> for each, a failure only logged.\<close>

fun restaurar_stock_integradora :: "(string \<times> int) list \<Rightarrow> mundo \<Rightarrow> mundo" where
  "restaurar_stock_integradora [] w = w"
| "restaurar_stock_integradora ((codigo, cant) # dets) w =
     restaurar_stock_integradora dets (snd (aumentar_stock_integradora codigo cant w))"

record info_devolucion =
  dev_dias_retraso :: int
  dev_penalizacion :: monto
  dev_deposito_devuelto :: dinero

text \<open>
  \<open>RentaController.devolver_renta\<close> of the later copy reads the clock once
  (\<open>ahora = datetime.now()\<close>) and uses that value for the days, the penalty and the date
  of return.
\<close>

definition devolver_renta_integradora ::
  "renta_controller \<Rightarrow> instante \<Rightarrow> int \<Rightarrow> int \<Rightarrow> mundo
     \<Rightarrow> (bool \<times> mensaje \<times> info_devolucion option) \<times> mundo" where
  "devolver_renta_integradora self ahora idr idu w =
     (case buscar_por_id w idr of
        None \<Rightarrow> ((False, NoExisteRenta, None), w)
      | Some fila \<Rightarrow>
          (case renta_from_db_row_integradora fila of
             None \<Rightarrow> ((False, ErrorInesperado, None), w)
           | Some r \<Rightarrow>
          if estado_renta r \<noteq> ''Activa'' \<and> estado_renta r \<noteq> ''Vencida''
          then ((False, EstadoNoDevolvible, None), w)
          else (let w1 = restaurar_stock_integradora (detalles_de w idr) w;
                    dias = (if fecha_devolucion r < ahora
                            then (ahora - fecha_devolucion r) div un_dia else 0);
                    pen = (if 0 < dias then penalizacion_dia self * of_int dias else 0);
                    w2 = snd (ejecutar_update (sql_devolver_renta ahora pen idr) w1)
                in ((True, RentaDevuelta,
                     Some \<lparr>dev_dias_retraso = dias, dev_penalizacion = pen,
                           dev_deposito_devuelto = deposito r\<rparr>), w2))))"

definition marcar_rentas_vencidas_integradora :: "instante \<Rightarrow> mundo \<Rightarrow> nat \<times> mundo" where
  "marcar_rentas_vencidas_integradora ahora w =
     (case ejecutar_update (sql_marcar_vencidas ahora) w of
        (filas, w') \<Rightarrow> (case filas of None \<Rightarrow> 0 | Some n \<Rightarrow> n, w'))"

section \<open>Sequences of ledger operations, and the instances of a process\<close>

text \<open>
  A caller of the inventory ledger: a sequence of calls of \<open>descontar_stock\<close> (reserve) and
  \<open>aumentar_stock\<close> (release), run one after the other whatever each one answers.
\<close>

datatype operacion = Reservar string int | Liberar string int

fun ejecutar_operaciones :: "operacion list \<Rightarrow> mundo \<Rightarrow> mundo" where
  "ejecutar_operaciones [] w = w"
| "ejecutar_operaciones (Reservar c q # ops) w =
     ejecutar_operaciones ops (snd (descontar_stock c q w))"
| "ejecutar_operaciones (Liberar c q # ops) w =
     ejecutar_operaciones ops (snd (aumentar_stock c q w))"

fun ejecutar_operaciones_integradora :: "operacion list \<Rightarrow> mundo \<Rightarrow> mundo" where
  "ejecutar_operaciones_integradora [] w = w"
| "ejecutar_operaciones_integradora (Reservar c q # ops) w =
     ejecutar_operaciones_integradora ops (snd (descontar_stock_integradora c q w))"
| "ejecutar_operaciones_integradora (Liberar c q # ops) w =
     ejecutar_operaciones_integradora ops (snd (aumentar_stock_integradora c q w))"

text \<open>The invariant of the inventory: every item has \<open>0 \<le> Disponible \<le> Stock\<close>.\<close>

definition inv_stock :: "mundo \<Rightarrow> bool" where
  "inv_stock w =
     (\<forall>c x. INVENTARIO (bd w) c = Some x \<longrightarrow> 0 \<le> disponible x \<and> disponible x \<le> stock x)"

text \<open>
  The rentals of a store are coherent when every rental that is not returned has no date
  of return.
\<close>

definition rentas_coherentes :: "mundo \<Rightarrow> bool" where
  "rentas_coherentes w =
     list_all (\<lambda>r. estado_renta r = ''Devuelto'' \<or> fecha_devuelto r = None) (RENTAS (bd w))"

text \<open>
  \<open>penalizacion_dia\<close> is an attribute of each \<open>RentaController\<close> object, set by
  \<open>__init__\<close>. A process holds its controller objects in a list; calling
  \<open>actualizar_penalizacion_dia\<close> on the object at index \<open>i\<close> assigns to that object's
  attribute and to no other object.
\<close>

definition actualizar_en ::
  "nat \<Rightarrow> monto \<Rightarrow> renta_controller list \<Rightarrow> mundo
     \<Rightarrow> (bool \<times> mensaje) \<times> renta_controller list \<times> mundo" where
  "actualizar_en i monto instancias w =
     (case actualizar_penalizacion_dia (instancias ! i) monto w of
        (res, self', w') \<Rightarrow> (res, instancias[i := self'], w'))"

section \<open>The formulas of the specification\<close>

text \<open>
  Written from the specification's words (its section 4.2 and the data model), to compare
  with what \<open>registrar_renta\<close> computes: the catalog's rate and sale price of an item,
  \<open>rentalTotal\<close> as the sum of \<open>lineSubtotal(qty, ratePerDay, days) = qty * ratePerDay * days\<close>,
  \<open>depositFor(lines)\<close> as the sum of \<open>quantity * unitSalePrice\<close>, and the quantity of an
  item that the lines of an order reserve.
\<close>

definition unitRentalRatePerDay :: "mundo \<Rightarrow> string \<Rightarrow> dinero" where
  "unitRentalRatePerDay w c =
     (case INVENTARIO (bd w) c of Some x \<Rightarrow> precio_renta x | None \<Rightarrow> 0)"

definition unitSalePrice :: "mundo \<Rightarrow> string \<Rightarrow> dinero" where
  "unitSalePrice w c = (case INVENTARIO (bd w) c of Some x \<Rightarrow> precio_venta x | None \<Rightarrow> 0)"

definition rentalTotal :: "mundo \<Rightarrow> (string \<times> int) list \<Rightarrow> int \<Rightarrow> dinero" where
  "rentalTotal w lines days = (\<Sum>(c, q)\<leftarrow>lines. q * unitRentalRatePerDay w c * days)"

definition depositFor :: "mundo \<Rightarrow> (string \<times> int) list \<Rightarrow> dinero" where
  "depositFor w lines = (\<Sum>(c, q)\<leftarrow>lines. q * unitSalePrice w c)"

definition reservado :: "(string \<times> int) list \<Rightarrow> string \<Rightarrow> int" where
  "reservado lines c = (\<Sum>(c', q)\<leftarrow>lines. if c' = c then q else 0)"

text \<open>The line a validated \<open>DetalleRenta\<close> stands for.\<close>

definition linea :: "detalle_renta \<Rightarrow> string \<times> int" where
  "linea det = (det_codigo_barras det, cantidad det)"

section \<open>A concrete store\<close>

text \<open>
  The item of the tests (\<^verbatim>\<open>test_rentas.py\<close>) and of the specification's scenarios: stock
  10, all of it available, rented at 150.00 a day, sold at 800.00.
\<close>

definition disfraz_X :: disfraz where
  "disfraz_X = \<lparr>precio_venta = 80000, precio_renta = 15000, stock = 10, disponible = 10,
     estado = ''Activo''\<rparr>"

definition bd_A :: db where
  "bd_A = \<lparr>INVENTARIO = [''X'' \<mapsto> disfraz_X], RENTAS = [], DETALLE_RENTAS = [],
     CONFIGURACION = [''PENALIZACION_DIA'' \<mapsto> 5000], CLIENTES = [1], USUARIOS = [1]\<rparr>"

definition mundo_A :: mundo where
  "mundo_A = \<lparr>bd = bd_A, fallos = []\<rparr>"

text \<open>
  The store after the root copy has registered 2 units of \<open>X\<close> for 3 days at instant 0
  (rental 1, due at the end of day 3).
\<close>

definition mundo_A1 :: mundo where
  "mundo_A1 = snd (registrar_renta 0 1 1 [(''X'', 2)] 3 mundo_A)"

text \<open>
  The store after the later copy has registered an order of two lines of 6 units of \<open>X\<close>
  each (rental 1).
\<close>

definition mundo_B :: mundo where
  "mundo_B = snd (registrar_renta_integradora 0 1 1 [(''X'', 6), (''X'', 6)] 3 mundo_A)"

text \<open>Three rentals: one active and past its date at instant 10, one active and not yet due, one returned.\<close>

definition bd_C :: db where
  "bd_C = bd_A\<lparr>RENTAS :=
     [\<lparr>id_renta = Some 1, id_cliente = 1, id_usuario = 1, fecha_renta = 0,
       fecha_devolucion = 5, fecha_devuelto = None, penalizacion = 0, dias_renta = 1,
       total = 15000, deposito = 80000, estado_renta = ''Activa''\<rparr>,
      \<lparr>id_renta = Some 2, id_cliente = 1, id_usuario = 1, fecha_renta = 0,
       fecha_devolucion = 20, fecha_devuelto = None, penalizacion = 0, dias_renta = 1,
       total = 15000, deposito = 80000, estado_renta = ''Activa''\<rparr>,
      \<lparr>id_renta = Some 3, id_cliente = 1, id_usuario = 1, fecha_renta = 0,
       fecha_devolucion = 5, fecha_devuelto = Some 9, penalizacion = 5000, dias_renta = 1,
       total = 15000, deposito = 80000, estado_renta = ''Devuelto''\<rparr>]\<rparr>"

section \<open>Evaluating the concrete stores\<close>

lemmas almacen_defs = mundo_A_def bd_A_def disfraz_X_def un_dia_def

lemmas conexion_defs = ejecutar_update_def ejecutar_insert_def filas_ok_def cursor_execute_def
  formato_2f_def decimal_10_2_def
  commit_def rollback_def sql_sumar_disponible_def sql_fijar_disponible_def sql_insert_renta_def
  sql_insert_detalle_def sql_insert_renta_integradora_def sql_insert_detalle_integradora_def
  sql_devolver_renta_def sql_update_config_def nuevo_id_def marcar_devuelto_def

lemmas inventario_defs = buscar_por_codigo_def esta_activo_def verificar_disponibilidad_def
  descontar_stock_def aumentar_stock_def

lemmas inventario_integradora_defs = buscar_por_codigo_integradora_def disfraz_construible_def
  disfraz_from_db_row_integradora_def
  esta_activo_def verificar_disponibilidad_integradora_def descontar_stock_integradora_def
  aumentar_stock_integradora_def

lemmas renta_defs = registrar_renta_def calcular_subtotal_def validar_renta_def
  buscar_por_id_def detalles_de_def devolver_renta_def esta_activa_def esta_devuelta_def
  esta_vencida_def dias_de_retraso_def calcular_penalizacion_def deposito_a_devolver_def
  nuevo_controller_def cargar_penalizacion_dia_def

lemmas renta_integradora_defs = registrar_renta_integradora_def validar_datos_renta_basicos_def
  devolver_renta_integradora_def renta_construible_def renta_from_db_row_integradora_def
  buscar_por_id_def detalles_de_def
  nuevo_controller_def cargar_penalizacion_dia_def

lemma registrar_A:
  "registrar_renta 0 1 1 [(''X'', 2)] 3 mundo_A = ((True, RentaRegistrada, Some 1), mundo_A1)"
  by (simp add: mundo_A1_def almacen_defs conexion_defs inventario_defs renta_defs)

lemma mundo_A1_valor:
  "mundo_A1 =
     \<lparr>bd = \<lparr>INVENTARIO = [''X'' \<mapsto> disfraz_X\<lparr>disponible := 8\<rparr>],
             RENTAS =
               [\<lparr>id_renta = Some 1, id_cliente = 1, id_usuario = 1, fecha_renta = 0,
                 fecha_devolucion = 3 * un_dia, fecha_devuelto = None, penalizacion = 0,
                 dias_renta = 3, total = 90000, deposito = 160000, estado_renta = ''Activa''\<rparr>],
             DETALLE_RENTAS =
               [\<lparr>det_id_renta = Some 1, det_codigo_barras = ''X'', cantidad = 2,
                 precio_unitario = 15000, subtotal = 90000\<rparr>],
             CONFIGURACION = [''PENALIZACION_DIA'' \<mapsto> 5000], CLIENTES = [1],
             USUARIOS = [1]\<rparr>,
      fallos = []\<rparr>"
  by (simp add: mundo_A1_def almacen_defs conexion_defs inventario_defs renta_defs)

section \<open>The inventory ledger\<close>

subsection \<open>The copy under INTEGRADORA keeps the stock invariant\<close>

lemma ejecutar_update_bd:
  "bd (snd (ejecutar_update stmt w)) = bd w \<or>
   bd (snd (ejecutar_update stmt w)) = fst (stmt (bd w))"
  by (simp add: ejecutar_update_def split: list.split bool.split prod.split)

lemma fijar_inv:
  assumes "inv_stock w" "INVENTARIO (bd w) c = Some x" "0 \<le> v" "v \<le> stock x"
  shows "inv_stock (snd (ejecutar_update (sql_fijar_disponible v c) w))"
proof -
  have "inv_stock w'" if "bd w' = fst (sql_fijar_disponible v c (bd w))" for w'
    using assms that by (auto simp: inv_stock_def sql_fijar_disponible_def split: if_splits)
  moreover have "inv_stock w'" if "bd w' = bd w" for w'
    using assms(1) that by (simp add: inv_stock_def)
  ultimately show ?thesis
    using ejecutar_update_bd[of "sql_fijar_disponible v c" w] by blast
qed

lemma buscar_integradora_Some:
  "buscar_por_codigo_integradora w c = Some x \<Longrightarrow>
   \<exists>y. INVENTARIO (bd w) c = Some y \<and> disponible y = disponible x \<and> stock y = stock x
       \<and> 0 \<le> disponible x"
  by (auto simp: buscar_por_codigo_integradora_def disfraz_from_db_row_integradora_def
      disfraz_construible_def split: option.splits if_splits)

lemma descontar_integradora_inv:
  assumes "inv_stock w"
  shows "inv_stock (snd (descontar_stock_integradora c q w))"
proof (cases "buscar_por_codigo_integradora w c")
  case None
  then show ?thesis using assms by (simp add: descontar_stock_integradora_def)
next
  case (Some x)
  from buscar_integradora_Some[OF Some] obtain y where
    b: "INVENTARIO (bd w) c = Some y" "disponible y = disponible x" "stock y = stock x"
      "0 \<le> disponible x" by blast
  show ?thesis
  proof (cases "esta_activo x \<and> 0 < q \<and> q \<le> disponible x")
    case True
    have "disponible y \<le> stock y" using assms b(1) unfolding inv_stock_def by blast
    with True have "inv_stock (snd (ejecutar_update (sql_fijar_disponible (disponible x - q) c) w))"
      using b by (intro fijar_inv[OF assms b(1)]) auto
    with True show ?thesis by (simp add: descontar_stock_integradora_def Some case_prod_unfold)
  next
    case False
    then show ?thesis using assms by (auto simp: descontar_stock_integradora_def Some)
  qed
qed

lemma aumentar_integradora_inv:
  assumes "inv_stock w"
  shows "inv_stock (snd (aumentar_stock_integradora c q w))"
proof (cases "buscar_por_codigo_integradora w c")
  case None
  then show ?thesis using assms by (simp add: aumentar_stock_integradora_def)
next
  case (Some x)
  from buscar_integradora_Some[OF Some] obtain y where
    b: "INVENTARIO (bd w) c = Some y" "disponible y = disponible x" "stock y = stock x"
      "0 \<le> disponible x" by blast
  show ?thesis
  proof (cases "0 < q \<and> disponible x + q \<le> stock x")
    case True
    then have "inv_stock (snd (ejecutar_update (sql_fijar_disponible (disponible x + q) c) w))"
      using b by (intro fijar_inv[OF assms b(1)]) auto
    with True show ?thesis by (simp add: aumentar_stock_integradora_def Some case_prod_unfold)
  next
    case False
    then show ?thesis using assms by (auto simp: aumentar_stock_integradora_def Some)
  qed
qed

text \<open>
  In the copy under INTEGRADORA every sequence of reservations and releases, whatever the
  quantities and whichever statements fail, keeps \<open>0 \<le> Disponible \<le> Stock\<close> for every
  item; a prefix of a sequence is a sequence, so the invariant holds after every call.
\<close>

lemma ledger_integradora_keeps_invariant:
  "inv_stock w \<Longrightarrow> inv_stock (ejecutar_operaciones_integradora ops w)"
proof (induction ops arbitrary: w)
  case Nil
  then show ?case by simp
next
  case (Cons op ops)
  then show ?case
    by (cases op) (simp_all add: descontar_integradora_inv aumentar_integradora_inv)
qed

text \<open>
  The release of the copy under INTEGRADORA refuses a quantity that would lift
  \<open>Disponible\<close> above \<open>Stock\<close> and leaves the store as it was.
\<close>

lemma aumentar_stock_integradora_over_release:
  "buscar_por_codigo_integradora w c = Some x \<Longrightarrow> 0 < q \<Longrightarrow> stock x < disponible x + q \<Longrightarrow>
   aumentar_stock_integradora c q w = ((False, SobreStock), w)"
  by (simp add: aumentar_stock_integradora_def)

text \<open>
  The check of the copy under INTEGRADORA answers \<open>False\<close> exactly when the item is not
  found, is inactive, the quantity is not positive, or less is available than asked.
\<close>

lemma verificar_disponibilidad_integradora_iff:
  "fst (verificar_disponibilidad_integradora w c q) = False \<longleftrightarrow>
     (case buscar_por_codigo_integradora w c of
        None \<Rightarrow> True
      | Some x \<Rightarrow> \<not> esta_activo x \<or> q \<le> 0 \<or> disponible x < q)"
  by (auto simp: verificar_disponibilidad_integradora_def split: option.splits)

text \<open>The check of the root copy has no test of the quantity's sign.\<close>

lemma verificar_disponibilidad_iff:
  "fst (verificar_disponibilidad w c q) = False \<longleftrightarrow>
     (case buscar_por_codigo w c of
        None \<Rightarrow> True
      | Some x \<Rightarrow> \<not> esta_activo x \<or> disponible x < q)"
  by (auto simp: verificar_disponibilidad_def split: option.splits)

subsection \<open>The root copy\<close>

text \<open>
  Claim C1: for every item and every sequence of reserve and release operations performed
  through the inventory ledger (\<open>descontar_stock\<close>, \<open>aumentar_stock\<close>), the invariant
  \<open>0 \<le> available \<le> totalStock\<close> holds after every operation.

  The root copy breaks it. On the item \<open>X\<close> (stock 10, available 10), reserving 2 and then
  releasing 2 twice (a double release) leaves 12 available of a stock of 10: its
  \<open>aumentar_stock\<close> adds the quantity without comparing with \<open>Stock\<close>. The copy under
  INTEGRADORA has the comparison (\<open>ledger_integradora_keeps_invariant\<close>).
\<close>

theorem ledger_root_breaks_stock_invariant:
  "map_option (\<lambda>x. (disponible x, stock x))
     (buscar_por_codigo
        (ejecutar_operaciones [Reservar ''X'' 2, Liberar ''X'' 2, Liberar ''X'' 2] mundo_A) ''X'')
   = Some (12, 10)"
  by (simp add: almacen_defs conexion_defs inventario_defs)

text \<open>
  Claim C4: \<open>release(code, qty)\<close> fails with an over-release error and leaves \<open>available\<close>
  unchanged whenever \<open>available + qty\<close> would exceed \<open>totalStock\<close>; it never silently clamps.

  The \<open>aumentar_stock\<close> of the root copy answers success on such a call and writes the sum:
  releasing 1 unit of \<open>X\<close> with 10 of 10 available gives 11 available.
\<close>

theorem aumentar_stock_root_accepts_over_release:
  "fst (aumentar_stock ''X'' 1 mundo_A) = (True, StockActualizado) \<and>
   map_option (\<lambda>x. (disponible x, stock x))
     (buscar_por_codigo (snd (aumentar_stock ''X'' 1 mundo_A)) ''X'') = Some (11, 10)"
  by (simp add: almacen_defs conexion_defs inventario_defs)

text \<open>
  Claim C7: \<open>checkAvailability(code, qty)\<close> returns \<open>ok = false\<close> exactly when the item is
  not found, the item is inactive, \<open>qty \<le> 0\<close>, or \<open>available < qty\<close>; in the
  insufficient-stock case it reports the available count; and it never modifies any state.

  The \<open>verificar_disponibilidad\<close> of the root copy answers \<open>True\<close> for a quantity of 0 and
  for a negative one: it has no test of the sign
  (\<open>verificar_disponibilidad_iff\<close>), where the copy under INTEGRADORA has one
  (\<open>verificar_disponibilidad_integradora_iff\<close>).
\<close>

theorem verificar_disponibilidad_root_accepts_nonpositive:
  "verificar_disponibilidad mundo_A ''X'' 0 = (True, StockSuficiente, 10) \<and>
   verificar_disponibilidad mundo_A ''X'' (- 3) = (True, StockSuficiente, 10)"
  by (simp add: almacen_defs inventario_defs)

section \<open>Registering a rental\<close>

subsection \<open>Totals, deposit and reservation in the root copy\<close>

lemma preparar_detalles_Inr:
  "preparar_detalles w dias items (vs, s, d) = Inr (vs', s', d') \<Longrightarrow>
     s' = s + rentalTotal w items dias \<and> d' = d + depositFor w items \<and>
     map linea vs' = map linea vs @ items"
proof (induction items arbitrary: vs s d)
  case Nil
  then show ?case by (simp add: rentalTotal_def depositFor_def)
next
  case (Cons it items)
  obtain c q where it: "it = (c, q)" by (cases it)
  from Cons.prems obtain x where
    x: "INVENTARIO (bd w) c = Some x"
    and rec: "preparar_detalles w dias items
        (vs @ [calcular_subtotal \<lparr>det_id_renta = None, det_codigo_barras = c, cantidad = q,
                 precio_unitario = precio_renta x, subtotal = 0\<rparr> dias],
         s + q * precio_renta x * dias, d + precio_venta x * q) = Inr (vs', s', d')"
    by (auto simp: it buscar_por_codigo_def verificar_disponibilidad_def calcular_subtotal_def
        Let_def split: if_splits option.splits prod.splits)
  from Cons.IH[OF rec] x show ?case
    by (simp add: it rentalTotal_def depositFor_def unitRentalRatePerDay_def unitSalePrice_def
        linea_def calcular_subtotal_def algebra_simps)
qed

lemma cursor_execute_Inr:
  "cursor_execute stmt tx = Inr tx' \<Longrightarrow> bd tx' = fst (stmt (bd tx))"
  by (auto simp: cursor_execute_def split: list.splits bool.splits)

lemma sumar_inventario:
  "INVENTARIO (fst (sql_sumar_disponible delta c d)) =
     (\<lambda>k. map_option (\<lambda>x. x\<lparr>disponible := disponible x + (if k = c then delta else 0)\<rparr>)
             (INVENTARIO d k))"
  by (rule ext) (auto simp: sql_sumar_disponible_def option.map_ident split: option.splits)

lemma sumar_rentas: "RENTAS (fst (sql_sumar_disponible delta c d)) = RENTAS d"
  by (auto simp: sql_sumar_disponible_def split: option.splits)

lemma insertar_detalles_Inr:
  "insertar_detalles idr dets tx = Inr tx' \<Longrightarrow>
     INVENTARIO (bd tx') =
       (\<lambda>k. map_option (\<lambda>x. x\<lparr>disponible := disponible x - reservado (map linea dets) k\<rparr>)
               (INVENTARIO (bd tx) k))
     \<and> RENTAS (bd tx') = RENTAS (bd tx)"
proof (induction dets arbitrary: tx)
  case Nil
  then show ?case by (auto simp: reservado_def option.map_ident)
next
  case (Cons det dets)
  from Cons.prems obtain tx1 tx2 where
    1: "cursor_execute (sql_insert_detalle idr det) tx = Inr tx1"
    and 2: "cursor_execute (sql_sumar_disponible (- cantidad det) (det_codigo_barras det)) tx1
              = Inr tx2"
    and 3: "insertar_detalles idr dets tx2 = Inr tx'"
    by (auto split: sum.splits)
  have b1: "INVENTARIO (bd tx1) = INVENTARIO (bd tx)" "RENTAS (bd tx1) = RENTAS (bd tx)"
    using cursor_execute_Inr[OF 1] by (simp_all add: sql_insert_detalle_def)
  have b2: "INVENTARIO (bd tx2) =
     (\<lambda>k. map_option
             (\<lambda>x. x\<lparr>disponible :=
                       disponible x + (if k = det_codigo_barras det then - cantidad det else 0)\<rparr>)
             (INVENTARIO (bd tx) k))"
    "RENTAS (bd tx2) = RENTAS (bd tx)"
    using cursor_execute_Inr[OF 2] b1 by (simp_all add: sumar_inventario sumar_rentas)
  from Cons.IH[OF 3] b2 show ?case
    by (auto simp: reservado_def linea_def option.map_comp comp_def intro!: option.map_cong)
qed

text \<open>The steps a successful \<open>registrar_renta\<close> has gone through.\<close>

lemma registrar_renta_pasos:
  assumes "registrar_renta ahora idc idu detalles dias w = ((True, msg, Some idr), w')"
  shows "\<exists>vs s d tx tx'.
      preparar_detalles w dias detalles ([], 0, 0) = Inr (vs, s, d)
    \<and> cursor_execute (sql_insert_renta idc idu ahora (ahora + dias * un_dia) dias s d) w = Inr tx
    \<and> idr = nuevo_id (RENTAS (bd w))
    \<and> insertar_detalles idr vs tx = Inr tx'
    \<and> commit tx' = Inr w'"
  using assms
  by (auto simp: registrar_renta_def rollback_def Let_def
      split: if_splits sum.splits prod.splits)

lemma commit_Inr: "commit tx = Inr w \<Longrightarrow> bd w = bd tx"
  by (auto simp: commit_def split: list.splits bool.splits)

text \<open>
  Claim C5: every successful \<open>registerRental\<close> with lines \<open>(quantity_i, item_i)\<close> and
  \<open>requestedDays\<close> days produces \<open>rentalTotal\<close> = the sum of
  \<open>quantity_i * unitRentalRatePerDay_i * requestedDays\<close>, \<open>deposit\<close> = the sum of
  \<open>quantity_i * unitSalePrice_i\<close> (the sale price, not the rental rate), and decrements each
  item's \<open>available\<close> by its quantity.

  For the root copy: when \<open>registrar_renta\<close> answers success, the store has one more
  rental, the header with the identifier returned, active, with that total and that
  deposit, taken from the catalog as it was at the call; and every item's \<open>Disponible\<close> is
  what it was less the quantities of the lines that name the item (nothing else of the
  item changes).
\<close>

theorem registrar_renta_totals_and_reservation:
  assumes "registrar_renta ahora idc idu detalles dias w = ((True, msg, Some idr), w')"
  shows "RENTAS (bd w') = RENTAS (bd w) @
           [\<lparr>id_renta = Some idr, id_cliente = idc, id_usuario = idu, fecha_renta = ahora,
             fecha_devolucion = ahora + dias * un_dia, fecha_devuelto = None, penalizacion = 0,
             dias_renta = dias, total = rentalTotal w detalles dias,
             deposito = depositFor w detalles, estado_renta = ''Activa''\<rparr>]
         \<and> INVENTARIO (bd w') =
             (\<lambda>c. map_option (\<lambda>x. x\<lparr>disponible := disponible x - reservado detalles c\<rparr>)
                     (INVENTARIO (bd w) c))"
proof -
  from registrar_renta_pasos[OF assms] obtain vs s d tx tx' where
    prep: "preparar_detalles w dias detalles ([], 0, 0) = Inr (vs, s, d)"
    and ins: "cursor_execute
                (sql_insert_renta idc idu ahora (ahora + dias * un_dia) dias s d) w = Inr tx"
    and idr: "idr = nuevo_id (RENTAS (bd w))"
    and dets: "insertar_detalles idr vs tx = Inr tx'"
    and com: "commit tx' = Inr w'"
    by blast
  from preparar_detalles_Inr[OF prep] have
    s: "s = rentalTotal w detalles dias" and d: "d = depositFor w detalles"
    and l: "map linea vs = detalles" by simp_all
  have tx: "bd tx = fst (sql_insert_renta idc idu ahora (ahora + dias * un_dia) dias s d (bd w))"
    using cursor_execute_Inr[OF ins] .
  have w': "bd w' = bd tx'"
    using com by (rule commit_Inr)
  from insertar_detalles_Inr[OF dets] tx w' s d l idr show ?thesis
    by (simp add: sql_insert_renta_def)
qed

text \<open>
  Scenario A of the specification: 2 units of \<open>X\<close> (rate 150.00, sale price 800.00, 10
  available) for 3 days give a total of 900.00, a deposit of 1600.00 and 8 available.
\<close>

theorem registrar_renta_scenario_A:
  "RENTAS (bd mundo_A1) =
     [\<lparr>id_renta = Some 1, id_cliente = 1, id_usuario = 1, fecha_renta = 0,
       fecha_devolucion = 3 * un_dia, fecha_devuelto = None, penalizacion = 0,
       dias_renta = 3, total = 90000, deposito = 160000, estado_renta = ''Activa''\<rparr>]
   \<and> map_option disponible (INVENTARIO (bd mundo_A1) ''X'') = Some 8"
  using registrar_renta_totals_and_reservation[OF registrar_A]
  by (simp add: rentalTotal_def depositFor_def unitRentalRatePerDay_def unitSalePrice_def
       reservado_def mundo_A_def bd_A_def disfraz_X_def)

subsection \<open>The bound of 30 days\<close>

text \<open>
  Claim C10: every call of \<open>registerRental\<close> with \<open>requestedDays > 30\<close> fails with a
  validation error before any mutation.

  In the root copy such a call answers \<open>False\<close> with the message of the empty order when
  it has no line and with the message of the 30 days otherwise, and the world is the one
  of before the call: no statement has been sent.
\<close>

theorem registrar_renta_max_30_dias:
  "30 < dias \<Longrightarrow>
   registrar_renta ahora idc idu detalles dias w =
     ((False, if detalles = [] then RentaSinProductos else MaximoDias, None), w)"
  by (simp add: registrar_renta_def)

theorem registrar_renta_31_dias:
  "(30::int) < 31 \<and>
   registrar_renta 0 1 1 [(''X'', 1)] 31 mundo_A = ((False, MaximoDias, None), mundo_A)"
  using registrar_renta_max_30_dias[of 31 0 1 1 "[(''X'', 1)]" mundo_A] by simp

text \<open>The copy under INTEGRADORA has no such bound: it registers a rental of 31 days.\<close>

lemma registrar_renta_integradora_31_dias:
  "fst (registrar_renta_integradora 0 1 1 [(''X'', 1)] 31 mundo_A) = (True, RentaRegistrada, Some 1)"
  by (simp add: almacen_defs conexion_defs inventario_integradora_defs renta_integradora_defs)

subsection \<open>All or nothing\<close>

text \<open>
  The root copy works in one transaction: when \<open>registrar_renta\<close> answers \<open>False\<close>,
  whichever statement failed, the committed store is the one of before the call; and a
  failed validation leaves the whole world as it was.
\<close>

lemma registrar_renta_root_all_or_nothing:
  "registrar_renta ahora idc idu detalles dias w = ((False, m, i), w') \<Longrightarrow> bd w' = bd w"
  by (auto simp: registrar_renta_def rollback_def Let_def
      split: if_splits sum.splits prod.splits)

lemma registrar_renta_root_validation_before_mutation:
  "registrar_renta ahora idc idu detalles dias w = ((False, m, i), w') \<Longrightarrow>
   m \<noteq> ErrorInesperado \<Longrightarrow> m \<noteq> ErrorAlRegistrar \<Longrightarrow> w' = w"
  by (auto simp: registrar_renta_def rollback_def Let_def
      split: if_splits sum.splits prod.splits)

text \<open>
  Claim C2: \<open>registerRental\<close> is all-or-nothing: every validation failure is detected
  before any mutation, and if any insertion or reservation step fails after mutation has
  begun, the whole unit of work rolls back, so that no rental header, no line items and no
  stock reservation persist.

  The copy under INTEGRADORA commits each statement by itself and only logs a reservation
  that fails. First conjunct: an order of two lines of 6 units of \<open>X\<close> (10 available)
  passes the check of each line, the second reservation fails for lack of stock (on a world
  that it leaves as it is, \<open>mundo_B\<close>), and the call answers success: the header and both
  lines persist over a reservation of 6 units. Second conjunct: when the insertion of the
  second line and its reservation fail in the store, the call answers success too, with
  the header, the first line and its reservation.
\<close>

theorem registrar_renta_integradora_not_atomic:
  "(fst (registrar_renta_integradora 0 1 1 [(''X'', 6), (''X'', 6)] 3 mundo_A)
      = (True, RentaRegistrada, Some 1)
    \<and> descontar_stock_integradora ''X'' 6 mundo_B = ((False, StockInsuficiente), mundo_B)
    \<and> map id_renta (RENTAS (bd mundo_B)) = [Some 1]
    \<and> detalles_de mundo_B 1 = [(''X'', 6), (''X'', 6)]
    \<and> map_option disponible (buscar_por_codigo mundo_B ''X'') = Some 4)
   \<and>
   (fst (registrar_renta_integradora 0 1 1 [(''X'', 2), (''X'', 3)] 3
           (mundo_A\<lparr>fallos := [False, False, False, True, True]\<rparr>))
      = (True, RentaRegistrada, Some 1)
    \<and> map id_renta (RENTAS (bd (snd (registrar_renta_integradora 0 1 1 [(''X'', 2), (''X'', 3)] 3
           (mundo_A\<lparr>fallos := [False, False, False, True, True]\<rparr>))))) = [Some 1]
    \<and> detalles_de (snd (registrar_renta_integradora 0 1 1 [(''X'', 2), (''X'', 3)] 3
           (mundo_A\<lparr>fallos := [False, False, False, True, True]\<rparr>))) 1 = [(''X'', 2)]
    \<and> map_option disponible
         (buscar_por_codigo (snd (registrar_renta_integradora 0 1 1 [(''X'', 2), (''X'', 3)] 3
           (mundo_A\<lparr>fallos := [False, False, False, True, True]\<rparr>))) ''X'') = Some 8)"
  by (simp add: mundo_B_def almacen_defs conexion_defs inventario_defs
      inventario_integradora_defs renta_integradora_defs)

section \<open>Returning a rental\<close>

subsection \<open>Only a return sets the date of return\<close>

text \<open>
  The three operations of the root copy that write rentals keep them coherent, whichever
  statements fail: a registration inserts a rental without a date of return, the sweep
  changes the state of active rentals only, and a return sets the date together with the
  state \<open>'Devuelto'\<close>. So in every store these operations reach from a coherent one (the
  empty one, say), a rental that is active or overdue has no date of return.
\<close>

lemma registrar_renta_coherentes:
  assumes "rentas_coherentes w"
  shows "rentas_coherentes (snd (registrar_renta ahora idc idu detalles dias w))"
proof (cases "registrar_renta ahora idc idu detalles dias w")
  case (Pair res w')
  obtain ok m i where res: "res = (ok, m, i)" by (cases res)
  show ?thesis
  proof (cases ok)
    case False
    with Pair res have "registrar_renta ahora idc idu detalles dias w = ((False, m, i), w')"
      by simp
    then have "bd w' = bd w" by (rule registrar_renta_root_all_or_nothing)
    then show ?thesis using assms Pair by (simp add: rentas_coherentes_def)
  next
    case True
    with Pair res obtain idr where i: "i = Some idr"
      by (auto simp: registrar_renta_def rollback_def Let_def
          split: if_splits sum.splits prod.splits)
    from Pair res True i
    have "registrar_renta ahora idc idu detalles dias w = ((True, m, Some idr), w')" by simp
    from registrar_renta_pasos[OF this] obtain vs s d tx tx' where
      ins: "cursor_execute (sql_insert_renta idc idu ahora (ahora + dias * un_dia) dias s d) w
              = Inr tx"
      and dets: "insertar_detalles idr vs tx = Inr tx'"
      and com: "commit tx' = Inr w'" by blast
    have "RENTAS (bd w') = RENTAS (bd tx)"
      using insertar_detalles_Inr[OF dets] commit_Inr[OF com] by simp
    also have "\<dots> = RENTAS (fst (sql_insert_renta idc idu ahora (ahora + dias * un_dia) dias s d (bd w)))"
      using cursor_execute_Inr[OF ins] by simp
    finally show ?thesis using assms Pair
      by (simp add: rentas_coherentes_def sql_insert_renta_def)
  qed
qed

lemma devolver_stock_rentas: "RENTAS (bd (devolver_stock dets w)) = RENTAS (bd w)"
proof (induction dets arbitrary: w)
  case Nil
  then show ?case by simp
next
  case (Cons it dets)
  obtain c q where it: "it = (c, q)" by (cases it)
  have "RENTAS (bd (snd (ejecutar_update (sql_sumar_disponible q c) w))) = RENTAS (bd w)"
    using ejecutar_update_bd[of "sql_sumar_disponible q c" w] by (auto simp: sumar_rentas)
  then show ?case using Cons.IH by (simp add: it)
qed

lemma devolver_renta_coherentes:
  assumes "rentas_coherentes w"
  shows "rentas_coherentes
           (snd (devolver_renta self ahora_dias ahora_pen ahora_bd idr idu w))"
proof -
  let ?w1 = "devolver_stock (detalles_de w idr) w"
  have c1: "rentas_coherentes ?w1"
    using assms by (simp add: rentas_coherentes_def devolver_stock_rentas)
  have "rentas_coherentes (snd (ejecutar_update (sql_devolver_renta ahora_bd p idr) ?w1))" for p
  proof -
    have "list_all (\<lambda>r. estado_renta r = ''Devuelto'' \<or> fecha_devuelto r = None)
            (map (\<lambda>r. if id_renta r = Some idr then marcar_devuelto ahora_bd p r else r) rs)"
      if "list_all (\<lambda>r. estado_renta r = ''Devuelto'' \<or> fecha_devuelto r = None) rs" for rs
      using that by (induction rs) (auto simp: marcar_devuelto_def)
    then show ?thesis
      using c1 ejecutar_update_bd[of "sql_devolver_renta ahora_bd p idr" ?w1]
      by (auto simp: rentas_coherentes_def sql_devolver_renta_def)
  qed
  then show ?thesis using assms
    by (auto simp: devolver_renta_def Let_def split: option.splits)
qed

lemma marcar_rentas_vencidas_coherentes:
  assumes "rentas_coherentes w"
  shows "rentas_coherentes (snd (marcar_rentas_vencidas ahora w))"
proof -
  have "list_all (\<lambda>r. estado_renta r = ''Devuelto'' \<or> fecha_devuelto r = None)
          (map (\<lambda>r. if por_vencer ahora r then r\<lparr>estado_renta := ''Vencida''\<rparr> else r) rs)"
    if "list_all (\<lambda>r. estado_renta r = ''Devuelto'' \<or> fecha_devuelto r = None) rs" for rs
    using that by (induction rs) (auto simp: por_vencer_def)
  then show ?thesis
    using assms ejecutar_update_bd[of "sql_marcar_vencidas ahora" w]
    by (auto simp: rentas_coherentes_def marcar_rentas_vencidas_def sql_marcar_vencidas_def
        case_prod_unfold)
qed

lemma coherentes_sin_fecha_devuelto:
  assumes "rentas_coherentes w" "buscar_por_id w idr = Some r" "esta_activa r \<or> esta_vencida r"
  shows "fecha_devuelto r = None"
proof -
  from assms(2) have "r \<in> set (RENTAS (bd w))"
    by (auto simp: buscar_por_id_def find_Some_iff)
  with assms(1) have "estado_renta r = ''Devuelto'' \<or> fecha_devuelto r = None"
    by (auto simp: rentas_coherentes_def list_all_iff)
  with assms(3) show ?thesis by (auto simp: esta_activa_def esta_vencida_def)
qed

subsection \<open>The settlement\<close>

text \<open>The days late of a rental that is active or overdue and has no date of return.\<close>

lemma dias_de_retraso_max:
  assumes "esta_activa r \<or> esta_vencida r" "fecha_devuelto r = None"
  shows "dias_de_retraso ahora r = max 0 ((ahora - fecha_devolucion r) div un_dia)"
proof -
  have pos: "0 < un_dia" by (simp add: un_dia_def)
  show ?thesis
  proof (cases "fecha_devolucion r < ahora")
    case True
    then have "0 \<le> (ahora - fecha_devolucion r) div un_dia"
      using pos by (simp add: pos_imp_zdiv_nonneg_iff)
    then show ?thesis using True assms by (auto simp: dias_de_retraso_def)
  next
    case False
    then have "(ahora - fecha_devolucion r) div un_dia \<le> 0"
      using pos by (simp add: div_nonpos_pos_le0)
    then show ?thesis using False assms by (auto simp: dias_de_retraso_def)
  qed
qed

text \<open>
  What the root copy returns: on a rental that is active or overdue, has no date of return
  (as every such rental of a coherent store, \<open>coherentes_sin_fecha_devuelto\<close>) and has
  at least one line, \<open>devolver_renta\<close> answers success, whatever statements fail. The
  days late are those at its first reading of the clock, the penalty is the rate the
  controller holds times the days late at its second reading, and the deposit is
  returned in full.
\<close>

lemma devolver_renta_settlement_two_readings:
  assumes "buscar_por_id w idr = Some r" "esta_activa r \<or> esta_vencida r"
    "fecha_devuelto r = None" "detalles_de w idr \<noteq> []"
  shows "fst (devolver_renta self ahora_dias ahora_pen ahora_bd idr idu w) =
     (True, RentaDevuelta,
      Some \<lparr>total_renta = total r, info_deposito = deposito r,
            dias_retraso = max 0 ((ahora_dias - fecha_devolucion r) div un_dia),
            info_penalizacion =
              of_int (max 0 ((ahora_pen - fecha_devolucion r) div un_dia))
                * penalizacion_dia self,
            deposito_devuelto = deposito r,
            cobrar_adicional =
              max 0 (of_int (max 0 ((ahora_pen - fecha_devolucion r) div un_dia))
                       * penalizacion_dia self)\<rparr>)"
proof -
  have nd: "\<not> esta_devuelta r"
    using assms(2) by (auto simp: esta_devuelta_def esta_activa_def esta_vencida_def)
  note d = dias_de_retraso_max[OF assms(2,3)]
  have p: "calcular_penalizacion ahora_pen r (penalizacion_dia self) =
      of_int (max 0 ((ahora_pen - fecha_devolucion r) div un_dia)) * penalizacion_dia self"
    unfolding calcular_penalizacion_def d by (auto simp: Let_def max_def)
  show ?thesis using assms nd d p
    by (auto simp: devolver_renta_def Let_def deposito_a_devolver_def)
qed

text \<open>
  When the two readings give the same instant, the penalty is the days late returned times
  the rate.
\<close>

lemma devolver_renta_settlement_same_reading:
  assumes "buscar_por_id w idr = Some r" "esta_activa r \<or> esta_vencida r"
    "fecha_devuelto r = None" "detalles_de w idr \<noteq> []"
  shows "fst (devolver_renta self ahora ahora ahora_bd idr idu w) =
     (True, RentaDevuelta,
      Some \<lparr>total_renta = total r, info_deposito = deposito r,
            dias_retraso = max 0 ((ahora - fecha_devolucion r) div un_dia),
            info_penalizacion =
              of_int (max 0 ((ahora - fecha_devolucion r) div un_dia)) * penalizacion_dia self,
            deposito_devuelto = deposito r,
            cobrar_adicional =
              max 0 (of_int (max 0 ((ahora - fecha_devolucion r) div un_dia))
                       * penalizacion_dia self)\<rparr>)"
  by (rule devolver_renta_settlement_two_readings[OF assms])

text \<open>
  Scenario B of the specification, with one instant for both readings: at 50.00 a day, the
  rental of scenario A returned three days after its date gives 3 days late, a penalty of
  150.00 and the deposit of 1600.00 returned in full.
\<close>

lemma devolver_renta_scenario_B:
  "fst (devolver_renta (nuevo_controller mundo_A1) (6 * un_dia + 1000) (6 * un_dia + 1000)
          (6 * un_dia + 1000) 1 1 mundo_A1) =
     (True, RentaDevuelta,
      Some \<lparr>total_renta = 90000, info_deposito = 160000, dias_retraso = 3,
            info_penalizacion = 15000, deposito_devuelto = 160000, cobrar_adicional = 15000\<rparr>)"
  by (simp add: mundo_A1_valor almacen_defs conexion_defs renta_defs)

text \<open>
  The copy under INTEGRADORA reads the clock once and computes the settlement of the claim
  from that instant and the date due, for a rental with or without lines.
\<close>

lemma devolver_renta_integradora_settlement:
  assumes "buscar_por_id w idr = Some fila" "renta_from_db_row_integradora fila = Some r"
    "estado_renta r = ''Activa'' \<or> estado_renta r = ''Vencida''"
  shows "fst (devolver_renta_integradora self ahora idr idu w) =
     (True, RentaDevuelta,
      Some \<lparr>dev_dias_retraso = max 0 ((ahora - fecha_devolucion r) div un_dia),
            dev_penalizacion =
              of_int (max 0 ((ahora - fecha_devolucion r) div un_dia)) * penalizacion_dia self,
            dev_deposito_devuelto = deposito r\<rparr>)"
proof -
  have pos: "0 < un_dia" by (simp add: un_dia_def)
  show ?thesis
  proof (cases "fecha_devolucion r < ahora")
    case True
    then have "0 \<le> (ahora - fecha_devolucion r) div un_dia"
      using pos by (simp add: pos_imp_zdiv_nonneg_iff)
    then show ?thesis using True assms
      by (auto simp: devolver_renta_integradora_def Let_def max_def)
  next
    case False
    then have "(ahora - fecha_devolucion r) div un_dia \<le> 0"
      using pos by (simp add: div_nonpos_pos_le0)
    then show ?thesis using False assms
      by (auto simp: devolver_renta_integradora_def Let_def max_def)
  qed
qed

text \<open>
  Claim C6: every successful \<open>returnRental\<close> on a rental in state Active or Overdue
  returns a settlement with \<open>daysLate = max(0, floor((now - dueDate) in days))\<close>,
  \<open>penalty = daysLate * penaltyPerDay\<close> (zero when \<open>daysLate = 0\<close>) and
  \<open>depositReturned = deposit\<close> in full; the penalty is a separate amount, never netted
  against the deposit.

  The root copy computes the days late it returns and the penalty from two readings of the
  clock. The rental of scenario A is due at the end of day 3; returned when the first
  reading falls one microsecond before the end of day 4 and the second at the end of day
  4, at 50.00 a day, the call answers 0 days late with a penalty of 50.00, where the claim
  gives a penalty of 0. The deposit is returned in full. The copy under INTEGRADORA reads
  the clock once (\<open>devolver_renta_integradora_settlement\<close>).
\<close>

theorem devolver_renta_root_penalty_without_days_late:
  "fst (devolver_renta (nuevo_controller mundo_A1) (4 * un_dia - 1) (4 * un_dia) (4 * un_dia)
          1 1 mundo_A1) =
     (True, RentaDevuelta,
      Some \<lparr>total_renta = 90000, info_deposito = 160000, dias_retraso = 0,
            info_penalizacion = 5000, deposito_devuelto = 160000, cobrar_adicional = 5000\<rparr>)"
  by (simp add: mundo_A1_valor almacen_defs conexion_defs renta_defs)

subsection \<open>No unit of work\<close>

text \<open>
  Claim C3: in \<open>returnRental\<close>, all per-line stock releases plus the header update happen
  in one atomic unit of work: if any step fails, everything rolls back and neither a
  release nor a header change survives.

  Neither copy has a unit of work here: each release and the header update go through
  \<open>ejecutar_update\<close>, which commits its one statement, and no result is looked at beyond
  a log line. First conjunct, the copy under INTEGRADORA: returning the rental of
  \<open>mundo_B\<close> (two lines of 6 units, 4 available of 10), the release of the first line
  gives 10 available, the release of the second is refused as an over-release, and the
  call answers success with the header marked as returned. Second conjunct, the root copy:
  returning the rental of scenario A when the header update fails in the store, the call
  answers success, the 2 units are released and the rental is still active.
\<close>

theorem devolver_renta_not_atomic:
  "(aumentar_stock_integradora ''X'' 6 (snd (aumentar_stock_integradora ''X'' 6 mundo_B))
      = ((False, SobreStock), snd (aumentar_stock_integradora ''X'' 6 mundo_B))
    \<and> fst (devolver_renta_integradora (nuevo_controller mundo_B) 1000 1 1 mundo_B)
        = (True, RentaDevuelta,
           Some \<lparr>dev_dias_retraso = 0, dev_penalizacion = 0, dev_deposito_devuelto = 960000\<rparr>)
    \<and> map estado_renta
        (RENTAS (bd (snd (devolver_renta_integradora (nuevo_controller mundo_B) 1000 1 1 mundo_B))))
        = [''Devuelto'']
    \<and> map_option disponible
        (buscar_por_codigo
           (snd (devolver_renta_integradora (nuevo_controller mundo_B) 1000 1 1 mundo_B)) ''X'')
        = Some 10)
   \<and>
   (fst (fst (devolver_renta (nuevo_controller mundo_A1) 1000 1000 1000 1 1
                (mundo_A1\<lparr>fallos := [False, True]\<rparr>))) = True
    \<and> map estado_renta
        (RENTAS (bd (snd (devolver_renta (nuevo_controller mundo_A1) 1000 1000 1000 1 1
                            (mundo_A1\<lparr>fallos := [False, True]\<rparr>)))))
        = [''Activa'']
    \<and> map_option disponible
        (buscar_por_codigo
           (snd (devolver_renta (nuevo_controller mundo_A1) 1000 1000 1000 1 1
                   (mundo_A1\<lparr>fallos := [False, True]\<rparr>))) ''X'')
        = Some 10)"
  by (simp add: mundo_B_def mundo_A1_valor almacen_defs conexion_defs inventario_defs
      inventario_integradora_defs renta_integradora_defs renta_defs)

section \<open>The sweep of overdue rentals\<close>

lemma map_sin_vencer:
  "list_all (\<lambda>r. \<not> por_vencer ahora r) rs \<Longrightarrow>
   map (\<lambda>r. if por_vencer ahora r then r\<lparr>estado_renta := ''Vencida''\<rparr> else r) rs = rs"
  by (induction rs) auto

lemma filter_sin_vencer:
  "list_all (\<lambda>r. \<not> por_vencer ahora r) rs \<Longrightarrow> filter (por_vencer ahora) rs = []"
  by (induction rs) auto

lemma tras_marcar:
  "list_all (\<lambda>r. \<not> por_vencer ahora r)
     (map (\<lambda>r. if por_vencer ahora r then r\<lparr>estado_renta := ''Vencida''\<rparr> else r) rs)"
  by (induction rs) (auto simp: por_vencer_def)

text \<open>Both copies run the same statement and return the same count.\<close>

lemma marcar_rentas_vencidas_integradora_eq:
  "marcar_rentas_vencidas_integradora ahora w = marcar_rentas_vencidas ahora w"
  by (auto simp: marcar_rentas_vencidas_integradora_def marcar_rentas_vencidas_def filas_ok_def
      split: prod.splits option.splits)

text \<open>
  Claim C8: \<open>sweepOverdue(now)\<close> sets \<open>state = Overdue\<close> exactly for the rentals with
  \<open>state = Active\<close> and \<open>dueDate < now\<close>, returns the number of rentals updated, never
  modifies a rental's penalty, and is idempotent: an immediate second run with the same
  \<open>now\<close> updates no row.

  For \<open>marcar_rentas_vencidas\<close> on a store whose statements do not fail: the rentals after
  the call are those of before, each active one with a date before \<open>ahora\<close> now
  \<open>'Vencida'\<close> and every other one as it was; the count returned is the number of those
  rentals; the penalties are the same; and a second call returns 0 and changes nothing.
\<close>

theorem marcar_rentas_vencidas_sweep:
  fixes d :: db and ahora :: instante
  defines "w \<equiv> \<lparr>bd = d, fallos = []\<rparr>"
  defines "n \<equiv> fst (marcar_rentas_vencidas ahora w)"
  defines "w' \<equiv> snd (marcar_rentas_vencidas ahora w)"
  shows "RENTAS (bd w') =
           map (\<lambda>r. if estado_renta r = ''Activa'' \<and> fecha_devolucion r < ahora
                     then r\<lparr>estado_renta := ''Vencida''\<rparr> else r) (RENTAS d)
         \<and> n = length (filter (\<lambda>r. estado_renta r = ''Activa'' \<and> fecha_devolucion r < ahora)
                          (RENTAS d))
         \<and> map penalizacion (RENTAS (bd w')) = map penalizacion (RENTAS d)
         \<and> marcar_rentas_vencidas ahora w' = (0, w')"
proof -
  have w': "w' = \<lparr>bd = fst (sql_marcar_vencidas ahora d), fallos = []\<rparr>"
    by (simp add: w'_def w_def marcar_rentas_vencidas_def ejecutar_update_def split: prod.splits)
  have n: "n = snd (sql_marcar_vencidas ahora d)"
    by (auto simp: n_def w_def marcar_rentas_vencidas_def ejecutar_update_def filas_ok_def
        split: prod.splits)
  have 1: "RENTAS (bd w') =
      map (\<lambda>r. if por_vencer ahora r then r\<lparr>estado_renta := ''Vencida''\<rparr> else r) (RENTAS d)"
    by (simp add: w' sql_marcar_vencidas_def)
  have 3: "map penalizacion (RENTAS (bd w')) = map penalizacion (RENTAS d)"
    unfolding 1 by (induction "RENTAS d") auto
  have 4: "marcar_rentas_vencidas ahora w' = (0, w')"
    using tras_marcar[of ahora "RENTAS d"]
    by (simp add: w' marcar_rentas_vencidas_def ejecutar_update_def filas_ok_def
        sql_marcar_vencidas_def map_sin_vencer filter_sin_vencer)
  have pv: "por_vencer ahora = (\<lambda>r. estado_renta r = ''Activa'' \<and> fecha_devolucion r < ahora)"
    by (rule ext) (simp add: por_vencer_def)
  show ?thesis using 1 3 4 n by (simp add: sql_marcar_vencidas_def pv)
qed

text \<open>
  On the three rentals of \<open>bd_C\<close> at instant 10: one row is updated, the states become
  overdue, active, returned, and the penalties stay 0, 0 and 50.00.
\<close>

theorem marcar_rentas_vencidas_example:
  "fst (marcar_rentas_vencidas 10 \<lparr>bd = bd_C, fallos = []\<rparr>) = 1
   \<and> map estado_renta (RENTAS (bd (snd (marcar_rentas_vencidas 10 \<lparr>bd = bd_C, fallos = []\<rparr>))))
       = [''Vencida'', ''Activa'', ''Devuelto'']
   \<and> map penalizacion (RENTAS (bd (snd (marcar_rentas_vencidas 10 \<lparr>bd = bd_C, fallos = []\<rparr>))))
       = [0, 0, 5000]"
  using marcar_rentas_vencidas_sweep[of 10 bd_C]
  by (simp add: bd_C_def)

section \<open>The penalty rate\<close>

lemma ejecutar_update_cases:
  "ejecutar_update stmt w = (r, w') \<Longrightarrow>
     (r = None \<and> bd w' = bd w) \<or> (r = Some (snd (stmt (bd w))) \<and> bd w' = fst (stmt (bd w)))"
  by (auto simp: ejecutar_update_def split: list.splits bool.splits prod.splits)

lemma update_config_filas:
  "0 < snd (sql_update_config k v d) \<Longrightarrow> CONFIGURACION (fst (sql_update_config k v d)) k = Some v"
  by (auto simp: sql_update_config_def split: option.splits if_splits)

lemma actualizar_negativo:
  "monto < 0 \<Longrightarrow> actualizar_penalizacion_dia self monto w = ((False, MontoNegativo), self, w)"
  by (simp add: actualizar_penalizacion_dia_def)

lemma actualizar_exito:
  assumes "actualizar_penalizacion_dia self monto w = ((True, m), self', w')"
  shows "CONFIGURACION (bd w') ''PENALIZACION_DIA'' = Some (formato_2f monto)
       \<and> penalizacion_dia self' = monto"
proof -
  obtain r w1 where
    eu: "ejecutar_update (sql_update_config ''PENALIZACION_DIA'' (formato_2f monto)) w = (r, w1)"
    by (cases "ejecutar_update (sql_update_config ''PENALIZACION_DIA'' (formato_2f monto)) w")
  from assms have ok: "filas_ok r" and w1: "w' = w1"
    and s: "self' = self\<lparr>penalizacion_dia := monto\<rparr>"
    by (auto simp: actualizar_penalizacion_dia_def eu split: if_splits)
  from ejecutar_update_cases[OF eu] ok have
    "0 < snd (sql_update_config ''PENALIZACION_DIA'' (formato_2f monto) (bd w))"
    "bd w1 = fst (sql_update_config ''PENALIZACION_DIA'' (formato_2f monto) (bd w))"
    by (auto simp: filas_ok_def)
  then show ?thesis using update_config_filas w1 s by simp
qed

text \<open>An amount of two decimals is written as it is.\<close>

lemma formato_2f_of_int: "formato_2f (of_int n) = n"
  by (simp add: formato_2f_def)

text \<open>
  Claim C9, as the code has it: \<open>updatePenaltyRate(newRate)\<close> fails for every negative
  \<open>newRate\<close> without changing the persisted rate or any in-memory rate; on success it
  persists the new rate written with two decimals, and the instance that issued the update
  holds the rate as it was given; every other loaded instance keeps the rate it holds, and
  an instance constructed after the update loads the persisted rate. (A rate of no more
  than two decimals is persisted as it is, \<open>formato_2f_of_int\<close>.)
\<close>

theorem actualizar_penalizacion_dia_per_instance:
  assumes "i < length cs"
    and "actualizar_en i monto cs w = (res, cs', w')"
  shows "(monto < 0 \<longrightarrow> res = (False, MontoNegativo) \<and> cs' = cs \<and> w' = w)
       \<and> (fst res \<longrightarrow>
            CONFIGURACION (bd w') ''PENALIZACION_DIA'' = Some (formato_2f monto)
          \<and> penalizacion_dia (cs' ! i) = monto
          \<and> (\<forall>j < length cs. j \<noteq> i \<longrightarrow> cs' ! j = cs ! j)
          \<and> penalizacion_dia (nuevo_controller w') = of_int (formato_2f monto))"
proof -
  obtain r self' w1 where a: "actualizar_penalizacion_dia (cs ! i) monto w = (r, self', w1)"
    by (cases "actualizar_penalizacion_dia (cs ! i) monto w") auto
  from assms(2) have res: "res = r" "cs' = cs[i := self']" "w' = w1"
    by (simp_all add: actualizar_en_def a)
  have neg: "monto < 0 \<longrightarrow> res = (False, MontoNegativo) \<and> cs' = cs \<and> w' = w"
    using actualizar_negativo[of monto "cs ! i" w] a res by auto
  have pos: "CONFIGURACION (bd w') ''PENALIZACION_DIA'' = Some (formato_2f monto)
          \<and> penalizacion_dia (cs' ! i) = monto
          \<and> (\<forall>j < length cs. j \<noteq> i \<longrightarrow> cs' ! j = cs ! j)
          \<and> penalizacion_dia (nuevo_controller w') = of_int (formato_2f monto)" if "fst res"
  proof -
    from that res obtain m where "r = (True, m)" by (cases r) auto
    from actualizar_exito[OF a[unfolded this]] res assms(1) show ?thesis
      by (simp add: nuevo_controller_def cargar_penalizacion_dia_def)
  qed
  show ?thesis using neg pos by blast
qed

text \<open>
  Two controllers loaded at 50.00. A negative amount through the first changes nothing.
  75.456 through the first is persisted as 75.46: the first holds 75.456, a controller
  constructed afterwards loads 75.46, and the second is as it was.
\<close>

theorem actualizar_penalizacion_dia_per_instance_witness:
  "actualizar_en 0 (- 1) [nuevo_controller mundo_A, nuevo_controller mundo_A] mundo_A
     = ((False, MontoNegativo), [nuevo_controller mundo_A, nuevo_controller mundo_A], mundo_A)
   \<and> fst (actualizar_en 0 (75456 / 10) [nuevo_controller mundo_A, nuevo_controller mundo_A]
            mundo_A)
       = (True, PenalizacionActualizada)
   \<and> CONFIGURACION
       (bd (snd (snd (actualizar_en 0 (75456 / 10)
                        [nuevo_controller mundo_A, nuevo_controller mundo_A] mundo_A))))
       ''PENALIZACION_DIA'' = Some 7546
   \<and> penalizacion_dia
       (fst (snd (actualizar_en 0 (75456 / 10)
                    [nuevo_controller mundo_A, nuevo_controller mundo_A] mundo_A)) ! 0)
       = 75456 / 10
   \<and> fst (snd (actualizar_en 0 (75456 / 10)
                 [nuevo_controller mundo_A, nuevo_controller mundo_A] mundo_A)) ! 1
       = nuevo_controller mundo_A
   \<and> penalizacion_dia
       (nuevo_controller
          (snd (snd (actualizar_en 0 (75456 / 10)
                       [nuevo_controller mundo_A, nuevo_controller mundo_A] mundo_A)))) = 7546"
proof -
  let ?cs = "[nuevo_controller mundo_A, nuevo_controller mundo_A]"
  let ?t = "actualizar_en 0 (75456 / 10) ?cs mundo_A"
  let ?u = "actualizar_en 0 (- 1) ?cs mundo_A"
  have l: "0 < length ?cs" by simp
  have t: "?t = (fst ?t, fst (snd ?t), snd (snd ?t))" by simp
  have u: "?u = (fst ?u, fst (snd ?u), snd (snd ?u))" by simp
  have fl: "\<lfloor>37728 / 5 :: rat\<rfloor> = 7545" by (simp add: floor_eq_iff)
  have f: "formato_2f (37728 / 5) = 7546" by (simp add: formato_2f_def fl)
  have m: "fst ?t = (True, PenalizacionActualizada)"
    by (simp add: actualizar_en_def actualizar_penalizacion_dia_def f ejecutar_update_def
        filas_ok_def sql_update_config_def almacen_defs nuevo_controller_def
        cargar_penalizacion_dia_def)
  then have ok: "fst (fst ?t)" by simp
  from actualizar_penalizacion_dia_per_instance[OF l t] ok
  have a: "CONFIGURACION (bd (snd (snd ?t))) ''PENALIZACION_DIA'' = Some 7546"
    "penalizacion_dia (fst (snd ?t) ! 0) = 75456 / 10"
    "fst (snd ?t) ! 1 = ?cs ! 1"
    "penalizacion_dia (nuevo_controller (snd (snd ?t))) = 7546"
    by (simp_all add: f)
  from actualizar_penalizacion_dia_per_instance[OF l u]
  have b: "fst ?u = (False, MontoNegativo)" "fst (snd ?u) = ?cs" "snd (snd ?u) = mundo_A"
    by simp_all
  have "?u = ((False, MontoNegativo), ?cs, mundo_A)"
    using b by (simp add: prod_eq_iff)
  with a m show ?thesis by simp
qed

text \<open>
  The claim as stated asks that every loaded instance observe the update. It fails on two
  controllers loaded at 50.00: after 75.00 has been set with success through the first,
  the store holds 75.00 and the second controller still holds 50.00.
\<close>

theorem actualizar_penalizacion_dia_stale_instance:
  "fst (actualizar_en 0 7500 [nuevo_controller mundo_A, nuevo_controller mundo_A] mundo_A)
     = (True, PenalizacionActualizada)
   \<and> CONFIGURACION
       (bd (snd (snd (actualizar_en 0 7500
                        [nuevo_controller mundo_A, nuevo_controller mundo_A] mundo_A))))
       ''PENALIZACION_DIA'' = Some 7500
   \<and> map penalizacion_dia
       (fst (snd (actualizar_en 0 7500
                    [nuevo_controller mundo_A, nuevo_controller mundo_A] mundo_A)))
       = [7500, 5000]"
proof -
  have f: "formato_2f 7500 = 7500" using formato_2f_of_int[of 7500] by simp
  show ?thesis
    by (simp add: actualizar_en_def actualizar_penalizacion_dia_def f ejecutar_update_def
        filas_ok_def sql_update_config_def almacen_defs nuevo_controller_def
        cargar_penalizacion_dia_def)
qed

end
